theory Spec2Isabelle
  imports Complex_Main "HOL-Library.Sublist"
begin

section \<open>Values of the request layer\<close>

text \<open>
  A request body is parsed JSON. A value of type \<open>unknown\<close> read from a body or a query
  is a \<open>json option\<close>: \<open>None\<close> is \<open>undefined\<close> (the field is absent). Array entries and
  object members are JSON values, which are never \<open>undefined\<close>.

  A string is a list of code units; the model covers the code units below 256, on which
  \<open>trim\<close> and \<open>toLowerCase\<close> are given below, and \<open>length\<close> counts code units as
  \<open>String.prototype.length\<close> does. A number is a rational value or one of the non-finite
  values. A difference or a product of integers is exact in doubles as long as it stays
  below \<open>2 ^ 53\<close>; the \<open>skip\<close> of \<open>parsePagination\<close> can go beyond, and is rounded to
  the nearest double, see \<open>nearestDouble\<close> below.
\<close>

datatype json =
    JNull
  | JBool bool
  | JNum rat
  | JStr string
  | JArr "json list"
  | JObj "(string \<times> json) list"

datatype jsnum = NaN | PosInfinity | NegInfinity | Finite rat

text \<open>A variable of type \<open>T | null | undefined\<close>.\<close>

datatype 'a nullish = Undefined | Null | Given 'a

record AppError =
  statusCode :: nat
  code :: string
  message :: string
  details :: "json option"

definition newAppError :: "nat \<Rightarrow> string \<Rightarrow> string \<Rightarrow> AppError" where
  "newAppError st c m = \<lparr>statusCode = st, code = c, message = m, details = None\<rparr>"

definition andThen :: "'e + 'a \<Rightarrow> ('a \<Rightarrow> 'e + 'b) \<Rightarrow> 'e + 'b" where
  "andThen r f = (case r of Inl e \<Rightarrow> Inl e | Inr x \<Rightarrow> f x)"

text \<open>
  What a handler can pass to \<open>next\<close>, as the terminal handler tells the cases apart: an
  \<open>AppError\<close>, a known request error of the ORM (its code and \<open>meta\<close>), an error object
  of the HTTP framework, which carries a \<open>type\<close> property (the body parser's errors), any
  other \<open>Error\<close> (its message), and a value that is not an \<open>Error\<close>.
\<close>

datatype thrown =
    ThrownAppError AppError
  | PrismaKnownError string "json option"
  | HttpError string string
  | OtherError string
  | NonError

text \<open>
  A validator throws an \<open>AppError\<close> only; \<open>asThrown\<close> is its result inside a function that
  can throw other errors too. A \<open>TypeError\<close> raised by the platform is an \<open>Error\<close> with
  its message.
\<close>

definition asThrown :: "AppError + 'a \<Rightarrow> thrown + 'a" where
  "asThrown r = (case r of Inl e \<Rightarrow> Inl (ThrownAppError e) | Inr x \<Rightarrow> Inr x)"

definition asTypeError :: "string + 'a \<Rightarrow> thrown + 'a" where
  "asTypeError r = (case r of Inl msg \<Rightarrow> Inl (OtherError msg) | Inr x \<Rightarrow> Inr x)"

subsection \<open>String primitives\<close>

definition isWhiteSpace :: "char \<Rightarrow> bool" where
  "isWhiteSpace c = ((of_char c :: nat) \<in> {9, 10, 11, 12, 13, 32, 160})"

definition trim :: "string \<Rightarrow> string" where
  "trim s = rev (dropWhile isWhiteSpace (rev (dropWhile isWhiteSpace s)))"

definition lowerCodeUnit :: "char \<Rightarrow> char" where
  "lowerCodeUnit c =
     (let n = (of_char c :: nat)
      in if (65 \<le> n \<and> n \<le> 90) \<or> (192 \<le> n \<and> n \<le> 222 \<and> n \<noteq> 215)
         then char_of (n + 32) else c)"

definition toLowerCase :: "string \<Rightarrow> string" where
  "toLowerCase s = map lowerCodeUnit s"

definition startsWith :: "string \<Rightarrow> string \<Rightarrow> bool" where
  "startsWith s p = (take (length p) s = p)"

text \<open>The relational operator \<open><\<close> on two strings: code units compared left to right.\<close>

fun js_string_less :: "string \<Rightarrow> string \<Rightarrow> bool" where
  "js_string_less [] [] = False"
| "js_string_less [] (y # ys) = True"
| "js_string_less (x # xs) [] = False"
| "js_string_less (x # xs) (y # ys) =
     (if (of_char x :: nat) < of_char y then True
      else if (of_char y :: nat) < of_char x then False
      else js_string_less xs ys)"

definition isDigit :: "char \<Rightarrow> bool" where
  "isDigit c = (48 \<le> (of_char c :: nat) \<and> (of_char c :: nat) \<le> 57)"

section \<open>Validators\<close>

text \<open>\<open>MONTH_PATTERN = /^\d{4}-(0[1-9]|1[0-2])$/\<close>, as \<open>MONTH_PATTERN.test\<close>.\<close>

fun MONTH_PATTERN_test :: "string \<Rightarrow> bool" where
  "MONTH_PATTERN_test [y1, y2, y3, y4, d, m1, m2] =
     (isDigit y1 \<and> isDigit y2 \<and> isDigit y3 \<and> isDigit y4 \<and> d = CHR ''-'' \<and>
      ((m1 = CHR ''0'' \<and> 49 \<le> (of_char m2 :: nat) \<and> (of_char m2 :: nat) \<le> 57) \<or>
       (m1 = CHR ''1'' \<and> 48 \<le> (of_char m2 :: nat) \<and> (of_char m2 :: nat) \<le> 50)))"
| "MONTH_PATTERN_test _ = False"

text \<open>Truthiness of a \<open>string | null | undefined\<close>: only a non-empty string is truthy.\<close>

definition truthyString :: "string nullish \<Rightarrow> bool" where
  "truthyString v = (case v of Given s \<Rightarrow> s \<noteq> [] | _ \<Rightarrow> False)"

definition validateExperienceChronology ::
  "string \<Rightarrow> string nullish \<Rightarrow> bool \<Rightarrow> AppError + unit" where
  "validateExperienceChronology startMonth endMonth isCurrent =
     (if isCurrent \<and> truthyString endMonth
      then Inl (newAppError 400 ''BAD_REQUEST'' ''endMonth must be null when isCurrent is true'')
      else if truthyString endMonth \<and>
              (case endMonth of Given e \<Rightarrow> js_string_less e startMonth | _ \<Rightarrow> False)
      then Inl (newAppError 400 ''BAD_REQUEST'' ''endMonth cannot be earlier than startMonth'')
      else Inr ())"

text \<open>
  The calendar reading of a \<open>YYYY-MM\<close> string, used to state what the chronology check
  decides: the decimal value of a digit string, and the number of the month counted
  from year 0.
\<close>

definition digitValue :: "char \<Rightarrow> nat" where
  "digitValue c = of_char c - 48"

definition decimalValue :: "string \<Rightarrow> nat" where
  "decimalValue s = foldl (\<lambda>acc c. 10 * acc + digitValue c) 0 s"

definition monthIndex :: "string \<Rightarrow> nat" where
  "monthIndex s = 12 * decimalValue (take 4 s) + decimalValue (drop 5 s)"

definition monthPrecedes :: "string \<Rightarrow> string \<Rightarrow> bool" where
  "monthPrecedes e s = (monthIndex e < monthIndex s)"

definition isBadRequest :: "AppError + 'a \<Rightarrow> bool" where
  "isBadRequest r = (case r of Inl e \<Rightarrow> statusCode e = 400 \<and> code e = ''BAD_REQUEST'' | Inr _ \<Rightarrow> False)"


subsection \<open>Rendering of template strings\<close>

fun showNat :: "nat \<Rightarrow> string" where
  "showNat n = (if n < 10 then [char_of (48 + n)] else showNat (n div 10) @ [char_of (48 + n mod 10)])"

declare showNat.simps [simp del]

fun joinWith :: "string \<Rightarrow> string list \<Rightarrow> string" where
  "joinWith sep [] = []"
| "joinWith sep [x] = x"
| "joinWith sep (x # y # ys) = x @ sep @ joinWith sep (y # ys)"

subsection \<open>URL check\<close>

text \<open>
  \<open>new URL(value)\<close> is the platform's URL parser; it is a parameter \<open>URL_parse\<close> of the
  functions that use it, \<open>None\<close> when the constructor throws (no base is given, so only
  an absolute URL parses). The \<open>protocol\<close> getter is the scheme followed by a colon.
\<close>

record URL =
  scheme :: string

definition protocol :: "URL \<Rightarrow> string" where
  "protocol u = scheme u @ '':''"

definition URL_PROTOCOLS :: "string set" where
  "URL_PROTOCOLS = {''http:'', ''https:''}"

definition isValidHttpUrl :: "(string \<Rightarrow> URL option) \<Rightarrow> string \<Rightarrow> bool" where
  "isValidHttpUrl URL_parse v =
     (case URL_parse v of None \<Rightarrow> False | Some u \<Rightarrow> protocol u \<in> URL_PROTOCOLS)"

text \<open>The predicate passed to \<open>value.find\<close> in \<open>validateImageLinks\<close>.\<close>

definition invalidImageEntry :: "(string \<Rightarrow> URL option) \<Rightarrow> json \<Rightarrow> bool" where
  "invalidImageEntry URL_parse entry =
     (case entry of JStr s \<Rightarrow> \<not> isValidHttpUrl URL_parse s | _ \<Rightarrow> True)"

definition validateImageLinks ::
  "(string \<Rightarrow> URL option) \<Rightarrow> json option \<Rightarrow> string \<Rightarrow> AppError + json list" where
  "validateImageLinks URL_parse v fieldName =
     (case v of
        Some (JArr entries) \<Rightarrow>
          (case find (invalidImageEntry URL_parse) entries of
             Some invalid \<Rightarrow>
               Inl (newAppError 400 ''BAD_REQUEST''
                      (fieldName @ '' must only contain valid http/https URLs''))
           | None \<Rightarrow> Inr entries)
      | _ \<Rightarrow> Inl (newAppError 400 ''BAD_REQUEST'' (fieldName @ '' must be an array of URLs'')))"

subsection \<open>Strings\<close>

definition validateRequiredString :: "json option \<Rightarrow> string \<Rightarrow> AppError + string" where
  "validateRequiredString v fieldName =
     (case v of
        Some (JStr s) \<Rightarrow>
          if trim s = [] then Inl (newAppError 400 ''BAD_REQUEST'' (fieldName @ '' is required''))
          else Inr (trim s)
      | _ \<Rightarrow> Inl (newAppError 400 ''BAD_REQUEST'' (fieldName @ '' is required'')))"

definition validateOptionalString :: "json option \<Rightarrow> string \<Rightarrow> AppError + string option" where
  "validateOptionalString v fieldName =
     (case v of
        None \<Rightarrow> Inr None
      | Some (JStr s) \<Rightarrow>
          (let trimmed = trim s
           in if trimmed = []
              then Inl (newAppError 400 ''BAD_REQUEST'' (fieldName @ '' cannot be empty''))
              else Inr (Some trimmed))
      | Some _ \<Rightarrow> Inl (newAppError 400 ''BAD_REQUEST'' (fieldName @ '' must be a string'')))"

definition validateRequiredStringWithMaxLength ::
  "json option \<Rightarrow> string \<Rightarrow> nat \<Rightarrow> AppError + string" where
  "validateRequiredStringWithMaxLength v fieldName maxLength =
     andThen (validateRequiredString v fieldName) (\<lambda>validated.
       if length validated > maxLength
       then Inl (newAppError 400 ''BAD_REQUEST''
                   (fieldName @ '' must be '' @ showNat maxLength @ '' characters or fewer''))
       else Inr validated)"

definition validateOptionalStringWithMaxLength ::
  "json option \<Rightarrow> string \<Rightarrow> nat \<Rightarrow> AppError + string option" where
  "validateOptionalStringWithMaxLength v fieldName maxLength =
     andThen (validateOptionalString v fieldName) (\<lambda>validated.
       case validated of
         Some s \<Rightarrow>
           if length s > maxLength
           then Inl (newAppError 400 ''BAD_REQUEST''
                       (fieldName @ '' must be '' @ showNat maxLength @ '' characters or fewer''))
           else Inr validated
       | None \<Rightarrow> Inr validated)"

definition validateRequiredHtmlField ::
  "json option \<Rightarrow> string \<Rightarrow> nat \<Rightarrow> AppError + string" where
  "validateRequiredHtmlField v fieldName maxLength =
     (case v of
        Some (JStr s) \<Rightarrow>
          if length s > maxLength
          then Inl (newAppError 400 ''BAD_REQUEST''
                      (fieldName @ '' must be '' @ showNat maxLength @ '' characters or fewer''))
          else Inr s
      | _ \<Rightarrow> Inl (newAppError 400 ''BAD_REQUEST'' (fieldName @ '' must be a string'')))"

definition validateOptionalHtmlField ::
  "json option \<Rightarrow> string \<Rightarrow> nat \<Rightarrow> AppError + string option" where
  "validateOptionalHtmlField v fieldName maxLength =
     (case v of
        None \<Rightarrow> Inr None
      | Some _ \<Rightarrow> andThen (validateRequiredHtmlField v fieldName maxLength) (\<lambda>s. Inr (Some s)))"

subsection \<open>Tags and highlights\<close>

text \<open>
  The \<open>for\<close> loop of \<open>validateTags\<close> and of \<open>validateHighlights\<close>; the two bodies differ in
  the length bound only (40 and 200). \<open>deduped\<close> and \<open>seen\<close> are the loop's two variables.
\<close>

fun dedupeEntries ::
  "nat \<Rightarrow> string \<Rightarrow> json list \<Rightarrow> string list \<Rightarrow> string set \<Rightarrow> AppError + string list" where
  "dedupeEntries bound fieldName [] deduped seen = Inr deduped"
| "dedupeEntries bound fieldName (entry # rest) deduped seen =
     (case entry of
        JStr s \<Rightarrow>
          (let normalized = trim s
           in if normalized = [] \<or> length normalized > bound
              then Inl (newAppError 400 ''BAD_REQUEST''
                          (fieldName @ '' entries must be between 1 and '' @ showNat bound
                             @ '' characters''))
              else (let dedupeKey = toLowerCase normalized
                    in if dedupeKey \<notin> seen
                       then dedupeEntries bound fieldName rest (deduped @ [normalized])
                              (insert dedupeKey seen)
                       else dedupeEntries bound fieldName rest deduped seen))
      | _ \<Rightarrow> Inl (newAppError 400 ''BAD_REQUEST'' (fieldName @ '' must contain only strings'')))"

definition validateTags :: "json option \<Rightarrow> string \<Rightarrow> AppError + string list" where
  "validateTags v fieldName =
     (case v of
        Some (JArr entries) \<Rightarrow> dedupeEntries 40 fieldName entries [] {}
      | _ \<Rightarrow> Inl (newAppError 400 ''BAD_REQUEST'' (fieldName @ '' must be an array of strings'')))"

definition validateHighlights :: "json option \<Rightarrow> string \<Rightarrow> AppError + string list" where
  "validateHighlights v fieldName =
     (case v of
        Some (JArr entries) \<Rightarrow> dedupeEntries 200 fieldName entries [] {}
      | _ \<Rightarrow> Inl (newAppError 400 ''BAD_REQUEST'' (fieldName @ '' must be an array of strings'')))"

definition validateOptionalHighlights ::
  "json option \<Rightarrow> string \<Rightarrow> AppError + string list option" where
  "validateOptionalHighlights v fieldName =
     (case v of
        None \<Rightarrow> Inr None
      | Some _ \<Rightarrow> andThen (validateHighlights v fieldName) (\<lambda>xs. Inr (Some xs)))"

definition validateTechTags :: "json option \<Rightarrow> string \<Rightarrow> AppError + string list" where
  "validateTechTags v fieldName = validateTags v fieldName"

definition validateOptionalTechTags ::
  "json option \<Rightarrow> string \<Rightarrow> AppError + string list option" where
  "validateOptionalTechTags v fieldName =
     (case v of
        None \<Rightarrow> Inr None
      | Some _ \<Rightarrow> andThen (validateTechTags v fieldName) (\<lambda>xs. Inr (Some xs)))"

text \<open>
  What the tag validators are meant to compute, stated on the list of entries: an entry
  is acceptable when it is a string whose trimmed form has between 1 and \<open>bound\<close> code
  units; the result keeps, in order, each trimmed entry whose lower-cased form did not
  occur before it.
\<close>

definition acceptableEntry :: "nat \<Rightarrow> json \<Rightarrow> bool" where
  "acceptableEntry bound entry =
     (case entry of JStr s \<Rightarrow> trim s \<noteq> [] \<and> length (trim s) \<le> bound | _ \<Rightarrow> False)"

definition trimmedEntries :: "json list \<Rightarrow> string list" where
  "trimmedEntries entries = concat (map (\<lambda>e. case e of JStr s \<Rightarrow> [trim s] | _ \<Rightarrow> []) entries)"

fun firstSeen :: "string list \<Rightarrow> string list" where
  "firstSeen [] = []"
| "firstSeen (x # xs) = x # firstSeen (filter (\<lambda>y. toLowerCase y \<noteq> toLowerCase x) xs)"

subsection \<open>External links\<close>

record ExternalLinkInput =
  label :: string
  url :: string

fun externalLinksLoop ::
  "(string \<Rightarrow> URL option) \<Rightarrow> string \<Rightarrow> json list \<Rightarrow> ExternalLinkInput list \<Rightarrow> string set
     \<Rightarrow> AppError + ExternalLinkInput list" where
  "externalLinksLoop URL_parse fieldName [] deduped seenUrls = Inr deduped"
| "externalLinksLoop URL_parse fieldName (item # rest) deduped seenUrls =
     (case item of
        JObj members \<Rightarrow>
          (case map_of members ''label'' of
             Some (JStr rawLabel) \<Rightarrow>
               if trim rawLabel = []
               then Inl (newAppError 400 ''BAD_REQUEST'' (fieldName @ ''.label is required''))
               else if length (trim rawLabel) > 40
               then Inl (newAppError 400 ''BAD_REQUEST''
                           (fieldName @ ''.label must be 40 characters or fewer''))
               else
                 (case map_of members ''url'' of
                    Some (JStr rawUrl) \<Rightarrow>
                      if \<not> isValidHttpUrl URL_parse rawUrl
                      then Inl (newAppError 400 ''BAD_REQUEST''
                                  (fieldName @ ''.url must be a valid http/https URL''))
                      else
                        (let normalizedUrl = trim rawUrl;
                             dedupeKey = toLowerCase normalizedUrl
                         in if dedupeKey \<notin> seenUrls
                            then externalLinksLoop URL_parse fieldName rest
                                   (deduped @ [\<lparr>label = trim rawLabel, url = normalizedUrl\<rparr>])
                                   (insert dedupeKey seenUrls)
                            else externalLinksLoop URL_parse fieldName rest deduped seenUrls)
                  | _ \<Rightarrow> Inl (newAppError 400 ''BAD_REQUEST''
                                (fieldName @ ''.url must be a valid http/https URL'')))
           | _ \<Rightarrow> Inl (newAppError 400 ''BAD_REQUEST'' (fieldName @ ''.label is required'')))
      | _ \<Rightarrow> Inl (newAppError 400 ''BAD_REQUEST'' (fieldName @ '' items must be objects'')))"

definition validateExternalLinks ::
  "(string \<Rightarrow> URL option) \<Rightarrow> json option \<Rightarrow> string \<Rightarrow> AppError + ExternalLinkInput list" where
  "validateExternalLinks URL_parse v fieldName =
     (case v of
        Some (JArr items) \<Rightarrow> externalLinksLoop URL_parse fieldName items [] {}
      | _ \<Rightarrow> Inl (newAppError 400 ''BAD_REQUEST'' (fieldName @ '' must be an array'')))"

definition validateOptionalExternalLinks ::
  "(string \<Rightarrow> URL option) \<Rightarrow> json option \<Rightarrow> string
     \<Rightarrow> AppError + ExternalLinkInput list option" where
  "validateOptionalExternalLinks URL_parse v fieldName =
     (case v of
        None \<Rightarrow> Inr None
      | Some _ \<Rightarrow> andThen (validateExternalLinks URL_parse v fieldName) (\<lambda>xs. Inr (Some xs)))"

subsection \<open>Months\<close>

definition validateRequiredMonthString :: "json option \<Rightarrow> string \<Rightarrow> AppError + string" where
  "validateRequiredMonthString v fieldName =
     (case v of
        Some (JStr s) \<Rightarrow>
          if \<not> MONTH_PATTERN_test s
          then Inl (newAppError 400 ''BAD_REQUEST'' (fieldName @ '' must use YYYY-MM format''))
          else Inr s
      | _ \<Rightarrow> Inl (newAppError 400 ''BAD_REQUEST'' (fieldName @ '' must use YYYY-MM format'')))"

definition validateOptionalMonthString ::
  "json option \<Rightarrow> string \<Rightarrow> AppError + string option" where
  "validateOptionalMonthString v fieldName =
     (case v of
        None \<Rightarrow> Inr None
      | Some _ \<Rightarrow> andThen (validateRequiredMonthString v fieldName) (\<lambda>s. Inr (Some s)))"

subsection \<open>Pagination, search, presence of fields\<close>

text \<open>
  \<open>Number(value)\<close> is the platform's coercion; it is a parameter \<open>toNumber\<close>, which gives
  the number, or the message of the \<open>TypeError\<close> that \<open>Number\<close> throws (on an object that
  has no primitive value, such as a nested query parameter \<open>page[toString]=x\<close>).
  \<open>Number.isInteger\<close> holds of the finite numbers without a fractional part only.
\<close>

definition Number_isInteger :: "jsnum \<Rightarrow> bool" where
  "Number_isInteger x = (case x of Finite r \<Rightarrow> of_int \<lfloor>r\<rfloor> = r | _ \<Rightarrow> False)"

text \<open>The value of a number that \<open>Number.isInteger\<close> has accepted.\<close>

definition finiteValue :: "jsnum \<Rightarrow> rat" where
  "finiteValue x = (case x of Finite r \<Rightarrow> r | _ \<Rightarrow> 0)"

text \<open>
  The double nearest to a natural number. Below \<open>2 ^ 53\<close> every natural number is a
  double. Beyond, a double has 53 significant bits: with \<open>k\<close> the number of bits in excess,
  the number is rounded to a multiple of \<open>2 ^ k\<close>, to the nearest one and to the one with
  an even multiplier when it lies half way; a result of \<open>2 ^ 1024\<close> or more is \<open>Infinity\<close>.
\<close>

fun excessBits :: "nat \<Rightarrow> nat" where
  "excessBits n = (if n < 2 ^ 53 then 0 else Suc (excessBits (n div 2)))"

declare excessBits.simps [simp del]

definition nearestDouble :: "nat \<Rightarrow> jsnum" where
  "nearestDouble n =
     (if n < 2 ^ 53 then Finite (of_nat n)
      else
        (let k = excessBits n;
             q = n div 2 ^ k;
             r = n mod 2 ^ k;
             half = 2 ^ (k - 1);
             m = (if r > half \<or> (r = half \<and> odd q) then q + 1 else q);
             rounded = m * 2 ^ k
         in if rounded \<ge> 2 ^ 1024 then PosInfinity else Finite (of_nat rounded)))"






definition requireAtLeastOneField :: "(string \<rightharpoonup> json) \<Rightarrow> string list \<Rightarrow> AppError + unit" where
  "requireAtLeastOneField payload fieldNames =
     (let hasAtLeastOne = list_ex (\<lambda>field. payload field \<noteq> None) fieldNames
      in if \<not> hasAtLeastOne
         then Inl (newAppError 400 ''BAD_REQUEST''
                     (''At least one of these fields is required: '' @ joinWith '', '' fieldNames))
         else Inr ())"

section \<open>Error normalisation\<close>

record Env =
  NODE_ENV :: "string option"
  JWT_SECRET :: "string option"
  SUPABASE_URL :: "string option"
  SUPABASE_SERVICE_ROLE_KEY :: "string option"
  SUPABASE_STORAGE_BUCKET :: "string option"

record ErrorResponse =
  status :: nat
  errorCode :: string
  errorMessage :: string
  errorDetails :: "json option"

definition typeProperty :: "thrown \<Rightarrow> string option" where
  "typeProperty error = (case error of HttpError t m \<Rightarrow> Some t | _ \<Rightarrow> None)"

definition isPrismaKnownError :: "thrown \<Rightarrow> bool" where
  "isPrismaKnownError error = (case error of PrismaKnownError c m \<Rightarrow> True | _ \<Rightarrow> False)"

definition instanceofAppError :: "thrown \<Rightarrow> bool" where
  "instanceofAppError error = (case error of ThrownAppError e \<Rightarrow> True | _ \<Rightarrow> False)"

definition normalizePrismaError :: "string \<Rightarrow> json option \<Rightarrow> AppError" where
  "normalizePrismaError errCode meta =
     (if errCode = ''P2002''
      then \<lparr>statusCode = 409, code = ''CONFLICT'', message = ''Resource already exists'', details = meta\<rparr>
      else if errCode = ''P2003''
      then \<lparr>statusCode = 400, code = ''BAD_REQUEST'', message = ''Invalid relation reference'', details = meta\<rparr>
      else if errCode = ''P2025''
      then \<lparr>statusCode = 404, code = ''NOT_FOUND'', message = ''Resource not found'', details = meta\<rparr>
      else \<lparr>statusCode = 500, code = ''INTERNAL_ERROR'', message = ''Database request failed'', details = meta\<rparr>)"

definition errorHandler :: "Env \<Rightarrow> thrown \<Rightarrow> ErrorResponse" where
  "errorHandler env error =
     (if typeProperty error = Some ''entity.too.large''
      then \<lparr>status = 400, errorCode = ''BAD_REQUEST'',
            errorMessage = ''Upload payload too large. Max 10 images, 5MB each.'',
            errorDetails = None\<rparr>
      else case error of
        ThrownAppError e \<Rightarrow>
          \<lparr>status = statusCode e, errorCode = code e, errorMessage = message e,
           errorDetails = details e\<rparr>
      | PrismaKnownError errCode meta \<Rightarrow>
          (let normalized = normalizePrismaError errCode meta
           in \<lparr>status = statusCode normalized, errorCode = code normalized,
               errorMessage = message normalized, errorDetails = details normalized\<rparr>)
      | _ \<Rightarrow>
          (let msg = (case error of HttpError t m \<Rightarrow> m | OtherError m \<Rightarrow> m | _ \<Rightarrow> ''Unknown error'')
           in \<lparr>status = 500, errorCode = ''INTERNAL_ERROR'', errorMessage = ''Internal server error'',
               errorDetails = (if NODE_ENV env = Some ''production'' then None else Some (JStr msg))\<rparr>))"

section \<open>Authentication\<close>

text \<open>
  \<open>jwt.verify(token, secret)\<close> is the token library; it is a parameter \<open>jwt_verify\<close>, which
  gives the claims of the decoded payload, or \<open>None\<close> when it throws (malformed, wrongly
  signed or expired token).
\<close>

record AccessTokenPayload =
  userId :: string
  email :: string

definition getJwtSecret :: "Env \<Rightarrow> string + string" where
  "getJwtSecret env =
     (case JWT_SECRET env of
        None \<Rightarrow> Inl ''JWT_SECRET is not configured''
      | Some secret \<Rightarrow> if secret = [] then Inl ''JWT_SECRET is not configured'' else Inr secret)"

definition verifyAccessToken ::
  "Env \<Rightarrow> (string \<Rightarrow> string \<Rightarrow> (string \<rightharpoonup> json) option) \<Rightarrow> string \<Rightarrow> string + AccessTokenPayload" where
  "verifyAccessToken env jwt_verify token =
     andThen (getJwtSecret env) (\<lambda>secret.
       case jwt_verify token secret of
         None \<Rightarrow> Inl ''jwt.verify failed''
       | Some decoded \<Rightarrow>
           (case (decoded ''sub'', decoded ''email'') of
              (Some (JStr uid), Some (JStr mail)) \<Rightarrow> Inr \<lparr>userId = uid, email = mail\<rparr>
            | _ \<Rightarrow> Inl ''Invalid token payload''))"

text \<open>
  \<open>requireAuth\<close>: \<open>Inl\<close> is the error handed to \<open>next\<close>, \<open>Inr\<close> is the identity stored in
  \<open>req.auth\<close> before \<open>next()\<close> is called.
\<close>

definition requireAuth ::
  "Env \<Rightarrow> (string \<Rightarrow> string \<Rightarrow> (string \<rightharpoonup> json) option) \<Rightarrow> string option
     \<Rightarrow> AppError + AccessTokenPayload" where
  "requireAuth env jwt_verify authorization =
     (case authorization of
        None \<Rightarrow> Inl (newAppError 401 ''UNAUTHORIZED'' ''Missing or invalid Authorization header'')
      | Some authHeader \<Rightarrow>
          if authHeader = [] \<or> \<not> startsWith authHeader ''Bearer ''
          then Inl (newAppError 401 ''UNAUTHORIZED'' ''Missing or invalid Authorization header'')
          else
            (let token = trim (drop (length ''Bearer '') authHeader)
             in if token = []
                then Inl (newAppError 401 ''UNAUTHORIZED'' ''Missing access token'')
                else
                  (case verifyAccessToken env jwt_verify token of
                     Inr payload \<Rightarrow> Inr \<lparr>userId = userId payload, email = email payload\<rparr>
                   | Inl caught \<Rightarrow>
                       Inl (newAppError 401 ''UNAUTHORIZED'' ''Invalid or expired token''))))"

section \<open>Experience controller\<close>

text \<open>
  The columns of an \<open>Experience\<close> row that the controller writes. \<open>sanitizeRichHtml\<close> calls
  the HTML sanitising library; it is a parameter \<open>sanitize\<close>.
\<close>

record Experience =
  company :: string
  role :: string
  employmentType :: "string option"
  location :: "string option"
  startMonth :: string
  endMonth :: "string option"
  isCurrent :: bool
  summaryHtml :: string
  highlights :: "string list"
  techTags :: "string list"
  links :: "ExternalLinkInput list"
  sortOrder :: rat

definition validateSortOrder ::
  "(json \<Rightarrow> string + jsnum) \<Rightarrow> json \<Rightarrow> string \<Rightarrow> thrown + rat" where
  "validateSortOrder toNumber v fieldName =
     andThen (asTypeError (toNumber v)) (\<lambda>parsed.
       if \<not> Number_isInteger parsed \<or> finiteValue parsed < 0 \<or> finiteValue parsed > 10000
       then Inl (ThrownAppError
                   (newAppError 400 ''BAD_REQUEST''
                      (fieldName @ '' must be an integer between 0 and 10000'')))
       else Inr (finiteValue parsed))"

definition validateOptionalSortOrder ::
  "(json \<Rightarrow> string + jsnum) \<Rightarrow> json option \<Rightarrow> string \<Rightarrow> thrown + rat option" where
  "validateOptionalSortOrder toNumber v fieldName =
     (case v of
        None \<Rightarrow> Inr None
      | Some x \<Rightarrow> andThen (validateSortOrder toNumber x fieldName) (\<lambda>n. Inr (Some n)))"

text \<open>\<open>Boolean(value)\<close> on a JSON value.\<close>

definition toBoolean :: "json \<Rightarrow> bool" where
  "toBoolean v =
     (case v of JNull \<Rightarrow> False | JBool b \<Rightarrow> b | JNum r \<Rightarrow> r \<noteq> 0 | JStr s \<Rightarrow> s \<noteq> [] | _ \<Rightarrow> True)"

text \<open>The ternary \<open>raw === null ? null : validateOptional...(raw, ...)\<close>.\<close>

definition nullOrValidated :: "json option \<Rightarrow> (AppError + 'a option) \<Rightarrow> AppError + 'a nullish" where
  "nullOrValidated raw validated =
     (if raw = Some JNull then Inr Null
      else andThen validated (\<lambda>r. Inr (case r of None \<Rightarrow> Undefined | Some x \<Rightarrow> Given x)))"

text \<open>\<open>raw ?? []\<close>.\<close>

definition orEmptyArray :: "json option \<Rightarrow> json option" where
  "orEmptyArray raw = (case raw of None \<Rightarrow> Some (JArr []) | Some JNull \<Rightarrow> Some (JArr []) | Some v \<Rightarrow> Some v)"

text \<open>A \<open>T | null | undefined\<close> as the column stores it, and a column read back.\<close>

definition toColumn :: "'a nullish \<Rightarrow> 'a option" where
  "toColumn v = (case v of Given x \<Rightarrow> Some x | _ \<Rightarrow> None)"

definition ofColumn :: "'a option \<Rightarrow> 'a nullish" where
  "ofColumn v = (case v of Some x \<Rightarrow> Given x | None \<Rightarrow> Null)"

text \<open>
  \<open>createExperience\<close>: \<open>Inl\<close> is the error thrown, \<open>Inr\<close> is the \<open>data\<close> given to
  \<open>prisma.experience.create\<close>, which is the row persisted.
\<close>

definition createExperience ::
  "(json \<Rightarrow> string + jsnum) \<Rightarrow> (string \<Rightarrow> URL option) \<Rightarrow> (string \<Rightarrow> string) \<Rightarrow> (string \<rightharpoonup> json)
     \<Rightarrow> thrown + Experience" where
  "createExperience toNumber URL_parse sanitize body =
     andThen (asThrown (validateRequiredStringWithMaxLength (body ''company'') ''company'' 120)) (\<lambda>company'.
     andThen (asThrown (validateRequiredStringWithMaxLength (body ''role'') ''role'' 120)) (\<lambda>role'.
     andThen (asThrown (nullOrValidated (body ''employmentType'')
                (validateOptionalStringWithMaxLength (body ''employmentType'') ''employmentType'' 80)))
       (\<lambda>employmentType'.
     andThen (asThrown (nullOrValidated (body ''location'')
                (validateOptionalStringWithMaxLength (body ''location'') ''location'' 120)))
       (\<lambda>location'.
     andThen (asThrown (validateRequiredMonthString (body ''startMonth'') ''startMonth'')) (\<lambda>startMonth'.
     andThen (asThrown (nullOrValidated (body ''endMonth'')
                (validateOptionalMonthString (body ''endMonth'') ''endMonth'')))
       (\<lambda>endMonth'.
     let isCurrent' = (case body ''isCurrent'' of None \<Rightarrow> False | Some v \<Rightarrow> toBoolean v) in
     andThen (asThrown (validateRequiredHtmlField (body ''summaryHtml'') ''summaryHtml'' 50000)) (\<lambda>summaryHtml'.
     andThen (asThrown (validateHighlights (orEmptyArray (body ''highlights'')) ''highlights'')) (\<lambda>highlights'.
     andThen (asThrown (validateTechTags (orEmptyArray (body ''techTags'')) ''techTags'')) (\<lambda>techTags'.
     andThen (asThrown (validateExternalLinks URL_parse (orEmptyArray (body ''links'')) ''links'')) (\<lambda>links'.
     andThen (case body ''sortOrder'' of None \<Rightarrow> Inr 0
              | Some v \<Rightarrow> validateSortOrder toNumber v ''sortOrder'') (\<lambda>sortOrder'.
     andThen (asThrown (validateExperienceChronology startMonth' endMonth' isCurrent')) (\<lambda>_.
       Inr \<lparr>company = company',
            role = role',
            employmentType = toColumn employmentType',
            location = toColumn location',
            startMonth = startMonth',
            endMonth = (if isCurrent' then None else toColumn endMonth'),
            isCurrent = isCurrent',
            summaryHtml = sanitize summaryHtml',
            highlights = highlights',
            techTags = techTags',
            links = links',
            sortOrder = sortOrder'\<rparr>))))))))))))"

text \<open>
  \<open>updateExperience\<close>: \<open>existing\<close> is what \<open>prisma.experience.findUnique\<close> returns for the
  id; \<open>Inr\<close> is the row after \<open>prisma.experience.update\<close> has merged \<open>data\<close> into it: a
  column changes exactly when its key is spread into \<open>data\<close>.
\<close>

definition updateExperience ::
  "(json \<Rightarrow> string + jsnum) \<Rightarrow> (string \<Rightarrow> URL option) \<Rightarrow> (string \<Rightarrow> string) \<Rightarrow> Experience option
     \<Rightarrow> (string \<rightharpoonup> json) \<Rightarrow> thrown + Experience" where
  "updateExperience toNumber URL_parse sanitize found body =
     andThen (asThrown (requireAtLeastOneField body
                [''company'', ''role'', ''employmentType'', ''location'', ''startMonth'', ''endMonth'',
                 ''isCurrent'', ''summaryHtml'', ''highlights'', ''techTags'', ''links'', ''sortOrder'']))
       (\<lambda>_.
     case found of
       None \<Rightarrow> Inl (ThrownAppError (newAppError 404 ''NOT_FOUND'' ''Experience not found''))
     | Some existing \<Rightarrow>
     andThen (asThrown (validateOptionalStringWithMaxLength (body ''company'') ''company'' 120)) (\<lambda>company'.
     andThen (asThrown (validateOptionalStringWithMaxLength (body ''role'') ''role'' 120)) (\<lambda>role'.
     andThen (asThrown (nullOrValidated (body ''employmentType'')
                (validateOptionalStringWithMaxLength (body ''employmentType'') ''employmentType'' 80)))
       (\<lambda>employmentType'.
     andThen (asThrown (nullOrValidated (body ''location'')
                (validateOptionalStringWithMaxLength (body ''location'') ''location'' 120)))
       (\<lambda>location'.
     andThen (asThrown (validateOptionalMonthString (body ''startMonth'') ''startMonth'')) (\<lambda>startMonth'.
     andThen (asThrown (nullOrValidated (body ''endMonth'')
                (validateOptionalMonthString (body ''endMonth'') ''endMonth'')))
       (\<lambda>endMonth'.
     let isCurrent' = (case body ''isCurrent'' of None \<Rightarrow> None | Some v \<Rightarrow> Some (toBoolean v)) in
     andThen (asThrown (validateOptionalHtmlField (body ''summaryHtml'') ''summaryHtml'' 50000)) (\<lambda>summaryHtml'.
     andThen (asThrown (validateOptionalHighlights (body ''highlights'') ''highlights'')) (\<lambda>highlights'.
     andThen (asThrown (validateOptionalTechTags (body ''techTags'') ''techTags'')) (\<lambda>techTags'.
     andThen (asThrown (validateOptionalExternalLinks URL_parse (body ''links'') ''links'')) (\<lambda>links'.
     andThen (validateOptionalSortOrder toNumber (body ''sortOrder'') ''sortOrder'') (\<lambda>sortOrder'.
     let nextStartMonth = (case startMonth' of Some m \<Rightarrow> m | None \<Rightarrow> startMonth existing);
         nextIsCurrent = (case isCurrent' of Some b \<Rightarrow> b | None \<Rightarrow> isCurrent existing);
         nextEndMonth = (if nextIsCurrent then None
                         else case endMonth' of Given m \<Rightarrow> Some m | _ \<Rightarrow> endMonth existing) in
     andThen (asThrown (validateExperienceChronology nextStartMonth (ofColumn nextEndMonth) nextIsCurrent)) (\<lambda>_.
       Inr \<lparr>company = (case company' of Some c \<Rightarrow> c | None \<Rightarrow> company existing),
            role = (case role' of Some r \<Rightarrow> r | None \<Rightarrow> role existing),
            employmentType = (case employmentType' of Undefined \<Rightarrow> employmentType existing
                              | v \<Rightarrow> toColumn v),
            location = (case location' of Undefined \<Rightarrow> location existing | v \<Rightarrow> toColumn v),
            startMonth = (case startMonth' of Some m \<Rightarrow> m | None \<Rightarrow> startMonth existing),
            endMonth = (if body ''endMonth'' \<noteq> None then nextEndMonth else endMonth existing),
            isCurrent = (case isCurrent' of Some b \<Rightarrow> b | None \<Rightarrow> isCurrent existing),
            summaryHtml = (case summaryHtml' of Some h \<Rightarrow> sanitize h | None \<Rightarrow> summaryHtml existing),
            highlights = (case highlights' of Some h \<Rightarrow> h | None \<Rightarrow> highlights existing),
            techTags = (case techTags' of Some t \<Rightarrow> t | None \<Rightarrow> techTags existing),
            links = (case links' of Some l \<Rightarrow> l | None \<Rightarrow> links existing),
            sortOrder = (case sortOrder' of Some n \<Rightarrow> n | None \<Rightarrow> sortOrder existing)\<rparr>)))))))))))))"

text \<open>The invariant of the data model on a row: a current position has no end month.\<close>

definition currentHasNoEnd :: "Experience \<Rightarrow> bool" where
  "currentHasNoEnd e = (\<not> (isCurrent e \<and> endMonth e \<noteq> None))"

section \<open>Category controller\<close>

record Category =
  name :: string
  description :: "string option"

record Blog =
  title :: string
  categoryId :: string

datatype PrismaCall = CategoryFindUnique string | CategoryDelete string

text \<open>
  The store as the category controller sees it: the categories by id, the blogs, and the
  ORM calls made so far. A blog references its category with \<open>ON DELETE RESTRICT\<close>.
\<close>

record Database =
  categories :: "string \<rightharpoonup> Category"
  blogs :: "Blog list"
  calls :: "PrismaCall list"

definition countBlogs :: "Database \<Rightarrow> string \<Rightarrow> nat" where
  "countBlogs db cid = length (filter (\<lambda>b. categoryId b = cid) (blogs db))"

text \<open>\<open>prisma.category.findUnique\<close> with \<open>include: { _count: { select: { blogs: true } } }\<close>.\<close>

definition category_findUnique :: "Database \<Rightarrow> string \<Rightarrow> (Category \<times> nat) option \<times> Database" where
  "category_findUnique db cid =
     (case categories db cid of
        None \<Rightarrow> (None, db\<lparr>calls := calls db @ [CategoryFindUnique cid]\<rparr>)
      | Some c \<Rightarrow> (Some (c, countBlogs db cid), db\<lparr>calls := calls db @ [CategoryFindUnique cid]\<rparr>))"

text \<open>\<open>prisma.category.delete\<close>: a missing row is P2025, a row that blogs reference is P2003.\<close>

definition category_delete :: "Database \<Rightarrow> string \<Rightarrow> (thrown + unit) \<times> Database" where
  "category_delete db cid =
     (let db' = db\<lparr>calls := calls db @ [CategoryDelete cid]\<rparr>
      in case categories db cid of
           None \<Rightarrow> (Inl (PrismaKnownError ''P2025'' None), db')
         | Some c \<Rightarrow>
             if countBlogs db cid > 0 then (Inl (PrismaKnownError ''P2003'' None), db')
             else (Inr (), db'\<lparr>categories := (categories db)(cid := None)\<rparr>))"

text \<open>\<open>deleteCategory\<close>: \<open>Inr\<close> is the status of the response sent.\<close>

definition deleteCategory :: "Database \<Rightarrow> string \<Rightarrow> (thrown + nat) \<times> Database" where
  "deleteCategory db cid =
     (case category_findUnique db cid of
        (None, db1) \<Rightarrow> (Inl (ThrownAppError (newAppError 404 ''NOT_FOUND'' ''Category not found'')), db1)
      | (Some (category, blogCount), db1) \<Rightarrow>
          if blogCount > 0
          then (Inl (ThrownAppError
                       (newAppError 409 ''CONFLICT'' ''Cannot delete category with existing blogs'')), db1)
          else (case category_delete db1 cid of
                  (Inl e, db2) \<Rightarrow> (Inl e, db2)
                | (Inr _, db2) \<Rightarrow> (Inr 204, db2)))"

section \<open>Uploads\<close>

subsection \<open>Storage configuration\<close>

fun str_includes :: "string \<Rightarrow> string \<Rightarrow> bool" where
  "str_includes [] sub = (sub = [])"
| "str_includes (c # cs) sub = (startsWith (c # cs) sub \<or> str_includes cs sub)"

record StorageConfig =
  storageUrl :: string
  serviceRoleKey :: string
  bucket :: string

definition getStorageConfig :: "Env \<Rightarrow> string + StorageConfig" where
  "getStorageConfig env =
     (let bucket' = (case SUPABASE_STORAGE_BUCKET env of
                       None \<Rightarrow> ''images'' | Some b \<Rightarrow> if b = [] then ''images'' else b)
      in case SUPABASE_URL env of
           None \<Rightarrow> Inl ''SUPABASE_URL is not configured''
         | Some u \<Rightarrow>
             if u = [] then Inl ''SUPABASE_URL is not configured''
             else case SUPABASE_SERVICE_ROLE_KEY env of
                    None \<Rightarrow> Inl ''SUPABASE_SERVICE_ROLE_KEY is not configured''
                  | Some k \<Rightarrow>
                      if k = [] then Inl ''SUPABASE_SERVICE_ROLE_KEY is not configured''
                      else if str_includes u ''YOUR_PROJECT_ID'' \<or> str_includes u ''example.com''
                      then Inl ''SUPABASE_URL is still a placeholder value''
                      else if str_includes k ''YOUR_SUPABASE_SERVICE_ROLE_KEY''
                      then Inl ''SUPABASE_SERVICE_ROLE_KEY is still a placeholder value''
                      else Inr \<lparr>storageUrl = u, serviceRoleKey = k, bucket = bucket'\<rparr>)"

subsection \<open>The controller\<close>

record UploadedFile =
  originalname :: string
  mimetype :: string
  size_bytes :: nat
  buffer :: string

record UploadCall =
  callBucket :: string
  callPath :: string
  callContentType :: string

definition MAX_FILES_PER_REQUEST :: nat where
  "MAX_FILES_PER_REQUEST = 10"

definition MAX_FILE_SIZE_BYTES :: nat where
  "MAX_FILE_SIZE_BYTES = 5 * 1024 * 1024"

definition ALLOWED_FOLDERS :: "string set" where
  "ALLOWED_FOLDERS = {''projects'', ''blogs''}"

definition MIME_EXTENSIONS :: "string \<rightharpoonup> string" where
  "MIME_EXTENSIONS =
     [''image/jpeg'' \<mapsto> ''jpg'', ''image/png'' \<mapsto> ''png'', ''image/webp'' \<mapsto> ''webp'',
      ''image/gif'' \<mapsto> ''gif'']"

definition isSafeFileChar :: "char \<Rightarrow> bool" where
  "isSafeFileChar c =
     ((97 \<le> (of_char c :: nat) \<and> (of_char c :: nat) \<le> 122) \<or> isDigit c \<or>
      c = CHR ''.'' \<or> c = CHR ''_'' \<or> c = CHR ''-'')"

fun collapseDashes :: "string \<Rightarrow> string" where
  "collapseDashes [] = []"
| "collapseDashes [c] = [c]"
| "collapseDashes (c # d # cs) =
     (if c = CHR ''-'' \<and> d = CHR ''-'' then collapseDashes (d # cs)
      else c # collapseDashes (d # cs))"

definition sanitizeFileName :: "string \<Rightarrow> string" where
  "sanitizeFileName fileName =
     (let trimmed = toLowerCase (trim fileName);
          safe = collapseDashes (map (\<lambda>c. if isSafeFileChar c then c else CHR ''-'') trimmed)
      in if safe = [] then ''file'' else safe)"

definition parseUploadFolder :: "json option \<Rightarrow> AppError + string" where
  "parseUploadFolder v =
     andThen (validateRequiredString v ''folder'') (\<lambda>folder.
       if folder \<notin> ALLOWED_FOLDERS
       then Inl (newAppError 400 ''BAD_REQUEST'' ''folder must be either projects or blogs'')
       else Inr folder)"

text \<open>
  \<open>safeName.split(".").pop()\<close> and \<open>safeName.replace(/\.[^.]+$/, "")\<close>. The lookup
  \<open>MIME_EXTENSIONS[file.mimetype]\<close> is a property access on a plain object: for a name
  that is not one of its four keys it finds the member of \<open>Object.prototype\<close> with that
  name, if there is one (\<open>constructor\<close>, say). \<open>objectPrototype\<close> gives the text that the
  template string makes of that member; such a member is an object or a function, hence
  truthy.
\<close>

definition lastSegment :: "string \<Rightarrow> string" where
  "lastSegment s = rev (takeWhile (\<lambda>c. c \<noteq> CHR ''.'') (rev s))"

definition withoutExtension :: "string \<Rightarrow> string" where
  "withoutExtension s =
     (if CHR ''.'' \<in> set s \<and> lastSegment s \<noteq> []
      then take (length s - length (lastSegment s) - 1) s else s)"

definition fileExtension :: "(string \<rightharpoonup> string) \<Rightarrow> string \<Rightarrow> string \<Rightarrow> string" where
  "fileExtension objectPrototype safeName mime =
     (let byMime = (case MIME_EXTENSIONS mime of
                      Some e \<Rightarrow> if e = [] then ''bin'' else e
                    | None \<Rightarrow> (case objectPrototype mime of
                                 Some member \<Rightarrow> member | None \<Rightarrow> ''bin''))
      in if CHR ''.'' \<in> set safeName
         then (if lastSegment safeName \<noteq> [] then lastSegment safeName else byMime)
         else byMime)"

text \<open>
  The \<open>for\<close> loop of \<open>uploadImages\<close>. The storage client is the pair of parameters
  \<open>storageUpload\<close> (the error message of a failed upload, if any) and \<open>getPublicUrl\<close>;
  \<open>randomUUID\<close> gives the identifier drawn for the n-th file. \<open>made\<close> is the list of
  upload calls issued so far, \<open>links'\<close> the links collected.
\<close>

fun uploadLoop ::
  "(string \<rightharpoonup> string) \<Rightarrow> (UploadCall \<Rightarrow> string \<Rightarrow> string option) \<Rightarrow> (string \<Rightarrow> string \<Rightarrow> string)
     \<Rightarrow> (nat \<Rightarrow> string) \<Rightarrow> string \<Rightarrow> string \<Rightarrow> UploadedFile list \<Rightarrow> string list
     \<Rightarrow> UploadCall list \<Rightarrow> (thrown + string list) \<times> UploadCall list" where
  "uploadLoop objectPrototype storageUpload getPublicUrl randomUUID folder bucket' [] links' made =
     (Inr links', made)"
| "uploadLoop objectPrototype storageUpload getPublicUrl randomUUID folder bucket' (file # rest)
     links' made =
     (if buffer file = []
      then (Inl (ThrownAppError (newAppError 400 ''BAD_REQUEST'' ''Uploaded file is empty'')), made)
      else if size_bytes file > MAX_FILE_SIZE_BYTES
      then (Inl (ThrownAppError
                   (newAppError 400 ''BAD_REQUEST'' ''Each image must be 5MB or smaller'')), made)
      else
        (let safeName = sanitizeFileName (originalname file);
             extension = fileExtension objectPrototype safeName (mimetype file);
             objectPath = folder @ ''/'' @ randomUUID (length made) @ ''-''
                            @ withoutExtension safeName @ ''.'' @ extension;
             call = \<lparr>callBucket = bucket', callPath = objectPath,
                     callContentType = mimetype file\<rparr>
         in case storageUpload call (buffer file) of
              Some uploadError \<Rightarrow>
                (Inl (ThrownAppError
                        \<lparr>statusCode = 500, code = ''INTERNAL_ERROR'',
                         message = ''Failed to upload image'',
                         details = Some (JStr uploadError)\<rparr>), made @ [call])
            | None \<Rightarrow>
                (let publicUrl = getPublicUrl bucket' objectPath
                 in if publicUrl = []
                    then (Inl (ThrownAppError
                                 (newAppError 500 ''INTERNAL_ERROR''
                                    ''Failed to resolve uploaded image URL'')), made @ [call])
                    else uploadLoop objectPrototype storageUpload getPublicUrl randomUUID folder
                           bucket' rest (links' @ [publicUrl]) (made @ [call]))))"

text \<open>
  \<open>uploadImages\<close>: \<open>files\<close> is \<open>req.files\<close> (\<open>None\<close> when it is not set). The result is
  what is thrown or the links of the response, and the upload calls made to the storage.
  \<open>getSupabaseAdminClient\<close> reads the configuration and builds the client with the
  library's \<open>createClient\<close>, which throws on an address that it does not accept: the
  parameter \<open>createClient\<close> gives the message of the error thrown for an address and a
  key, if any. \<open>getStorageBucket\<close> reads the same configuration again.
\<close>

definition uploadImages ::
  "Env \<Rightarrow> (string \<Rightarrow> string \<Rightarrow> string option) \<Rightarrow> (string \<rightharpoonup> string)
     \<Rightarrow> (UploadCall \<Rightarrow> string \<Rightarrow> string option) \<Rightarrow> (string \<Rightarrow> string \<Rightarrow> string) \<Rightarrow> (nat \<Rightarrow> string)
     \<Rightarrow> (string \<rightharpoonup> json) \<Rightarrow> UploadedFile list option
     \<Rightarrow> (thrown + string list) \<times> UploadCall list" where
  "uploadImages env createClient objectPrototype storageUpload getPublicUrl randomUUID body reqFiles =
     (case parseUploadFolder (body ''folder'') of
        Inl e \<Rightarrow> (Inl (ThrownAppError e), [])
      | Inr folder \<Rightarrow>
          (let files = (case reqFiles of None \<Rightarrow> [] | Some fs \<Rightarrow> fs)
           in if length files < 1 \<or> length files > MAX_FILES_PER_REQUEST
              then (Inl (ThrownAppError
                           (newAppError 400 ''BAD_REQUEST'' ''Upload between 1 and 10 images'')), [])
              else case getStorageConfig env of
                     Inl msg \<Rightarrow> (Inl (OtherError msg), [])
                   | Inr config \<Rightarrow>
                       (case createClient (storageUrl config) (serviceRoleKey config) of
                          Some msg \<Rightarrow> (Inl (OtherError msg), [])
                        | None \<Rightarrow>
                            uploadLoop objectPrototype storageUpload getPublicUrl randomUUID folder
                              (bucket config) files [] [])))"

subsection \<open>The upload middleware\<close>

text \<open>
  What \<open>upload.array("files", MAX_FILES)\<close> hands to its callback: a \<open>MulterError\<close> (code and
  message), another error (the one \<open>fileFilter\<close> gave it), or no error, with \<open>req.files\<close> set.
\<close>

datatype MulterOutcome =
    MulterError string string
  | CallbackError thrown
  | Parsed "UploadedFile list"

definition uploadMiddleware :: "MulterOutcome \<Rightarrow> thrown + UploadedFile list" where
  "uploadMiddleware outcome =
     (case outcome of
        MulterError errCode msg \<Rightarrow>
          if errCode = ''LIMIT_FILE_SIZE''
          then Inl (ThrownAppError (newAppError 400 ''BAD_REQUEST'' ''Each image must be 5MB or smaller''))
          else if errCode = ''LIMIT_FILE_COUNT''
          then Inl (ThrownAppError
                      (newAppError 400 ''BAD_REQUEST'' ''You can upload up to 10 images at once''))
          else Inl (ThrownAppError (newAppError 400 ''BAD_REQUEST'' msg))
      | CallbackError e \<Rightarrow> Inl e
      | Parsed files \<Rightarrow> Inr files)"

definition MAX_FILES :: nat where
  "MAX_FILES = 10"

definition MAX_SIZE_BYTES :: nat where
  "MAX_SIZE_BYTES = 5 * 1024 * 1024"

definition ALLOWED_MIME_TYPES :: "string set" where
  "ALLOWED_MIME_TYPES = {''image/jpeg'', ''image/png'', ''image/webp'', ''image/gif''}"

text \<open>The \<open>fileFilter\<close> option: the error it calls back with, if any.\<close>

definition fileFilter :: "string \<Rightarrow> AppError option" where
  "fileFilter mime =
     (if mime \<notin> ALLOWED_MIME_TYPES
      then Some (newAppError 400 ''BAD_REQUEST'' ''Only JPG, PNG, WEBP, and GIF are allowed'')
      else None)"

text \<open>
  The multipart parser configured in the route, on the file parts of a request in the
  order they arrive: a part beyond \<open>limits.files\<close> is \<open>LIMIT_FILE_COUNT\<close>, a part of
  another field than \<open>files\<close> is \<open>LIMIT_UNEXPECTED_FILE\<close>, a part that \<open>fileFilter\<close>
  refuses gives the filter's error, a part whose length reaches \<open>limits.fileSize\<close> is
  \<open>LIMIT_FILE_SIZE\<close>; the first failure ends the parse. This follows the documented
  behaviour of the library, which is not part of the repository.
\<close>

record FilePart =
  partField :: string
  partName :: string
  partType :: string
  partContent :: string

fun multerArray :: "FilePart list \<Rightarrow> UploadedFile list \<Rightarrow> MulterOutcome" where
  "multerArray [] accepted = Parsed accepted"
| "multerArray (part # rest) accepted =
     (if length accepted \<ge> MAX_FILES then MulterError ''LIMIT_FILE_COUNT'' ''Too many files''
      else if partField part \<noteq> ''files'' then MulterError ''LIMIT_UNEXPECTED_FILE'' ''Unexpected field''
      else case fileFilter (partType part) of
             Some e \<Rightarrow> CallbackError (ThrownAppError e)
           | None \<Rightarrow>
               if length (partContent part) \<ge> MAX_SIZE_BYTES
               then MulterError ''LIMIT_FILE_SIZE'' ''File too large''
               else multerArray rest
                      (accepted @ [\<lparr>originalname = partName part, mimetype = partType part,
                                    size_bytes = length (partContent part),
                                    buffer = partContent part\<rparr>]))"

text \<open>
  The handlers of \<open>POST /api/uploads\<close> after \<open>requireAuth\<close>: \<open>uploadMiddleware\<close>, then
  \<open>uploadImages\<close> unless the middleware passed an error on.
\<close>

definition postUploads ::
  "Env \<Rightarrow> (string \<Rightarrow> string \<Rightarrow> string option) \<Rightarrow> (string \<rightharpoonup> string)
     \<Rightarrow> (UploadCall \<Rightarrow> string \<Rightarrow> string option) \<Rightarrow> (string \<Rightarrow> string \<Rightarrow> string) \<Rightarrow> (nat \<Rightarrow> string)
     \<Rightarrow> (string \<rightharpoonup> json) \<Rightarrow> FilePart list \<Rightarrow> (thrown + string list) \<times> UploadCall list" where
  "postUploads env createClient objectPrototype storageUpload getPublicUrl randomUUID body parts =
     (case uploadMiddleware (multerArray parts []) of
        Inl e \<Rightarrow> (Inl e, [])
      | Inr files \<Rightarrow>
          uploadImages env createClient objectPrototype storageUpload getPublicUrl randomUUID body
            (Some files))"

section \<open>List endpoints\<close>





section \<open>Notions used to state the properties\<close>

text \<open>
  A value that is a string which parses as an absolute URL whose scheme is \<open>http\<close> or
  \<open>https\<close>.
\<close>

definition isHttpUrlValue :: "(string \<Rightarrow> URL option) \<Rightarrow> json option \<Rightarrow> bool" where
  "isHttpUrlValue URL_parse v =
     (case v of
        Some (JStr s) \<Rightarrow>
          (case URL_parse s of Some u \<Rightarrow> scheme u = ''http'' \<or> scheme u = ''https'' | None \<Rightarrow> False)
      | _ \<Rightarrow> False)"

text \<open>
  A result that is a thrown \<open>AppError\<close> with status 400 and code \<open>BAD_REQUEST\<close>.
\<close>

definition throwsBadRequest :: "thrown + 'a \<Rightarrow> bool" where
  "throwsBadRequest r =
     (case r of
        Inl (ThrownAppError e) \<Rightarrow> statusCode e = 400 \<and> code e = ''BAD_REQUEST''
      | _ \<Rightarrow> False)"

text \<open>
  Stand-ins for the platform functions, to run the definitions on concrete requests: a
  coercion and a parser. The coercion reads a string of decimal digits, to the nearest
  double, and throws on an object with a member \<open>toString\<close>: the members of a parsed query
  or body are not functions, so that \<open>Number\<close> finds no primitive value for the object and
  throws a \<open>TypeError\<close>. The parser reads the scheme of \<open>scheme://rest\<close> for three schemes.
  They are instances of the parameters, not models of \<open>Number\<close> and \<open>URL\<close>.
\<close>

definition decimalCoercion :: "json \<Rightarrow> string + jsnum" where
  "decimalCoercion v =
     (case v of
        JNum r \<Rightarrow> Inr (Finite r)
      | JStr s \<Rightarrow>
          if s \<noteq> [] \<and> list_all isDigit s then Inr (nearestDouble (decimalValue s)) else Inr NaN
      | JObj members \<Rightarrow>
          if ''toString'' \<in> set (map fst members)
          then Inl ''Cannot convert object to primitive value''
          else Inr NaN
      | _ \<Rightarrow> Inr NaN)"

definition schemeParser :: "string \<Rightarrow> URL option" where
  "schemeParser s =
     (if startsWith s ''https://'' \<and> length s > 8 then Some \<lparr>scheme = ''https''\<rparr>
      else if startsWith s ''http://'' \<and> length s > 7 then Some \<lparr>scheme = ''http''\<rparr>
      else if startsWith s ''ftp://'' \<and> length s > 6 then Some \<lparr>scheme = ''ftp''\<rparr>
      else None)"

text \<open>
  Stand-ins for the storage library and for the members that a plain object inherits: a
  client constructor that throws on an address that is not an \<open>http\<close> or \<open>https\<close> URL, and
  two of the members of \<open>Object.prototype\<close>.
\<close>

definition httpClient :: "string \<Rightarrow> string \<Rightarrow> string option" where
  "httpClient address key =
     (case schemeParser address of
        Some u \<Rightarrow> if scheme u = ''http'' \<or> scheme u = ''https'' then None
                  else Some ''Invalid supabaseUrl: Must be a valid HTTP or HTTPS URL.''
      | None \<Rightarrow> Some ''Invalid supabaseUrl: Must be a valid HTTP or HTTPS URL.'')"

definition inheritedMembers :: "string \<rightharpoonup> string" where
  "inheritedMembers =
     [''constructor'' \<mapsto> ''function Object() { [native code] }'',
      ''toString'' \<mapsto> ''function toString() { [native code] }'']"

section \<open>The chronology check decides calendar order\<close>

text \<open>
  On two strings of digits of the same length, the order of the code units is the order
  of the numbers they denote.
\<close>

lemma foldl_dec_shift:
  "foldl (\<lambda>acc c. 10 * acc + digitValue c) a xs
     = a * 10 ^ length xs + foldl (\<lambda>acc c. 10 * acc + digitValue c) 0 xs"
proof (induction xs arbitrary: a)
  case Nil
  show ?case by simp
next
  case (Cons x xs)
  have "foldl (\<lambda>acc c. 10 * acc + digitValue c) a (x # xs)
          = (10 * a + digitValue x) * 10 ^ length xs + foldl (\<lambda>acc c. 10 * acc + digitValue c) 0 xs"
    using Cons.IH [of "10 * a + digitValue x"] by simp
  moreover have "foldl (\<lambda>acc c. 10 * acc + digitValue c) 0 (x # xs)
          = digitValue x * 10 ^ length xs + foldl (\<lambda>acc c. 10 * acc + digitValue c) 0 xs"
    using Cons.IH [of "digitValue x"] by simp
  ultimately show ?case by (simp add: algebra_simps)
qed

lemma decimalValue_Nil: "decimalValue [] = 0"
  by (simp add: decimalValue_def)

lemma decimalValue_Cons:
  "decimalValue (x # xs) = digitValue x * 10 ^ length xs + decimalValue xs"
  unfolding decimalValue_def using foldl_dec_shift [of "digitValue x" xs] by simp

lemma digitValue_le: "isDigit c \<Longrightarrow> digitValue c \<le> 9"
  unfolding isDigit_def digitValue_def by arith

lemma decimalValue_bound:
  "\<forall>c\<in>set xs. isDigit c \<Longrightarrow> decimalValue xs < 10 ^ length xs"
proof (induction xs)
  case Nil
  show ?case by (simp add: decimalValue_Nil)
next
  case (Cons x xs)
  have d: "digitValue x \<le> 9" using Cons.prems by (simp add: digitValue_le)
  have r: "decimalValue xs < 10 ^ length xs" using Cons by simp
  have "digitValue x * 10 ^ length xs \<le> 9 * 10 ^ length xs"
    using d by simp
  then have "digitValue x * 10 ^ length xs + decimalValue xs < 10 * 10 ^ length xs"
    using r by arith
  then show ?case by (simp add: decimalValue_Cons)
qed

lemma digitValue_less_iff:
  "isDigit x \<Longrightarrow> isDigit y \<Longrightarrow> (digitValue x < digitValue y) = ((of_char x :: nat) < of_char y)"
  unfolding isDigit_def digitValue_def by arith

lemma digitValue_inj:
  "isDigit x \<Longrightarrow> isDigit y \<Longrightarrow> digitValue x = digitValue y \<Longrightarrow> x = y"
proof -
  assume a: "isDigit x" "isDigit y" "digitValue x = digitValue y"
  then have "(of_char x :: nat) = of_char y" unfolding isDigit_def digitValue_def by arith
  then show "x = y" by simp
qed

lemma digits_less_iff:
  "length xs = length ys \<Longrightarrow> \<forall>c\<in>set xs. isDigit c \<Longrightarrow> \<forall>c\<in>set ys. isDigit c \<Longrightarrow>
     js_string_less xs ys = (decimalValue xs < decimalValue ys)"
proof (induction xs ys rule: list_induct2)
  case Nil
  show ?case by (simp add: decimalValue_Nil)
next
  case (Cons x xs y ys)
  let ?p = "(10::nat) ^ length xs"
  have dx: "isDigit x" and dy: "isDigit y" using Cons.prems by simp_all
  have bx: "decimalValue xs < ?p" using Cons.prems by (simp add: decimalValue_bound)
  have by': "decimalValue ys < ?p" using Cons.prems Cons.hyps by (metis decimalValue_bound list.set_intros(2))
  have ih: "js_string_less xs ys = (decimalValue xs < decimalValue ys)"
    using Cons by simp
  consider (lt) "digitValue x < digitValue y" | (gt) "digitValue y < digitValue x"
    | (eq) "digitValue x = digitValue y" by linarith
  then show ?case
  proof cases
    case lt
    then have "digitValue x + 1 \<le> digitValue y" by simp
    then have "(digitValue x + 1) * ?p \<le> digitValue y * ?p" by (rule mult_le_mono1)
    then have "digitValue x * ?p + decimalValue xs < digitValue y * ?p + decimalValue ys"
      using bx by (simp add: algebra_simps)
    moreover have "(of_char x :: nat) < of_char y" using lt dx dy by (simp add: digitValue_less_iff)
    ultimately show ?thesis using Cons.hyps by (simp add: decimalValue_Cons)
  next
    case gt
    then have "digitValue y + 1 \<le> digitValue x" by simp
    then have "(digitValue y + 1) * ?p \<le> digitValue x * ?p" by (rule mult_le_mono1)
    then have "\<not> digitValue x * ?p + decimalValue xs < digitValue y * ?p + decimalValue ys"
      using by' by (simp add: algebra_simps)
    moreover have "(of_char y :: nat) < of_char x" using gt dx dy by (simp add: digitValue_less_iff)
    ultimately show ?thesis using Cons.hyps by (simp add: decimalValue_Cons)
  next
    case eq
    then have "x = y" using dx dy by (simp add: digitValue_inj)
    then show ?thesis using ih Cons.hyps by (simp add: decimalValue_Cons)
  qed
qed

lemma js_string_less_irrefl: "\<not> js_string_less xs xs"
  by (induction xs) auto

lemma js_string_less_append:
  "length a = length a' \<Longrightarrow>
     js_string_less (a @ b) (a' @ b') = (js_string_less a a' \<or> (a = a' \<and> js_string_less b b'))"
proof (induction a a' rule: list_induct2)
  case Nil
  show ?case by simp
next
  case (Cons x xs y ys)
  show ?case
  proof (cases "x = y")
    case True
    then show ?thesis using Cons.IH by simp
  next
    case False
    then have "(of_char x :: nat) \<noteq> of_char y" by simp
    then show ?thesis using False by auto
  qed
qed

lemma digits_eq_iff:
  assumes "length xs = length ys" "\<forall>c\<in>set xs. isDigit c" "\<forall>c\<in>set ys. isDigit c"
  shows "(xs = ys) = (decimalValue xs = decimalValue ys)"
  using assms
proof (induction xs ys rule: list_induct2)
  case Nil
  show ?case by simp
next
  case (Cons x xs y ys)
  let ?p = "(10::nat) ^ length xs"
  have dx: "isDigit x" and dy: "isDigit y" using Cons.prems by simp_all
  have bx: "decimalValue xs < ?p" using Cons.prems by (simp add: decimalValue_bound)
  have by': "decimalValue ys < ?p" using Cons.prems Cons.hyps by (metis decimalValue_bound list.set_intros(2))
  have ih: "(xs = ys) = (decimalValue xs = decimalValue ys)" using Cons by simp
  show ?case
  proof
    assume "x # xs = y # ys"
    then show "decimalValue (x # xs) = decimalValue (y # ys)" by simp
  next
    assume e: "decimalValue (x # xs) = decimalValue (y # ys)"
    then have e': "digitValue x * ?p + decimalValue xs = digitValue y * ?p + decimalValue ys"
      using Cons.hyps by (simp add: decimalValue_Cons)
    have "\<not> js_string_less (x # xs) (y # ys)" "\<not> js_string_less (y # ys) (x # xs)"
      using digits_less_iff [of "x # xs" "y # ys"] digits_less_iff [of "y # ys" "x # xs"]
        Cons.prems Cons.hyps e by simp_all
    then have "x = y \<and> \<not> js_string_less xs ys \<and> \<not> js_string_less ys xs"
      by (auto split: if_splits simp: linorder_neq_iff [where 'a = nat] dest!: injD [OF inj_of_char])
    then show "x # xs = y # ys" using e' ih by simp
  qed
qed

lemma month_shape:
  assumes "MONTH_PATTERN_test s"
  obtains ys ms where "s = ys @ CHR ''-'' # ms" "length ys = 4" "length ms = 2"
    "\<forall>c\<in>set ys. isDigit c" "\<forall>c\<in>set ms. isDigit c"
    "1 \<le> decimalValue ms" "decimalValue ms \<le> 12"
proof -
  from assms obtain y1 y2 y3 y4 d m1 m2 where s: "s = [y1, y2, y3, y4, d, m1, m2]"
    by (cases s rule: MONTH_PATTERN_test.cases) auto
  from assms s have dg: "isDigit y1" "isDigit y2" "isDigit y3" "isDigit y4" and d: "d = CHR ''-''"
    and m: "(m1 = CHR ''0'' \<and> 49 \<le> (of_char m2 :: nat) \<and> (of_char m2 :: nat) \<le> 57) \<or>
       (m1 = CHR ''1'' \<and> 48 \<le> (of_char m2 :: nat) \<and> (of_char m2 :: nat) \<le> 50)"
    by simp_all
  have v: "decimalValue [m1, m2] = digitValue m1 * 10 + digitValue m2"
    by (simp add: decimalValue_def)
  from m have md: "isDigit m1" "isDigit m2"
    and rng: "1 \<le> digitValue m1 * 10 + digitValue m2 \<and> digitValue m1 * 10 + digitValue m2 \<le> 12"
    by (auto simp: isDigit_def digitValue_def)
  show thesis
    by (rule that [of "[y1, y2, y3, y4]" "[m1, m2]"]) (use s d dg md rng v in simp_all)
qed

lemma month_less_iff:
  assumes e: "MONTH_PATTERN_test e" and s: "MONTH_PATTERN_test s"
  shows "js_string_less e s = monthPrecedes e s"
proof -
  from e obtain ye me where E: "e = ye @ CHR ''-'' # me" "length ye = 4" "length me = 2"
    "\<forall>c\<in>set ye. isDigit c" "\<forall>c\<in>set me. isDigit c" "1 \<le> decimalValue me" "decimalValue me \<le> 12"
    by (rule month_shape)
  from s obtain ys ms where S: "s = ys @ CHR ''-'' # ms" "length ys = 4" "length ms = 2"
    "\<forall>c\<in>set ys. isDigit c" "\<forall>c\<in>set ms. isDigit c" "1 \<le> decimalValue ms" "decimalValue ms \<le> 12"
    by (rule month_shape)
  have le: "length ye = length ys" "length me = length ms" using E S by simp_all
  have "js_string_less e s = (js_string_less ye ys \<or> (ye = ys \<and> js_string_less me ms))"
    using js_string_less_append [OF le(1), of "CHR ''-'' # me" "CHR ''-'' # ms"] E(1) S(1) by simp
  also have "\<dots> = (decimalValue ye < decimalValue ys \<or>
                     (decimalValue ye = decimalValue ys \<and> decimalValue me < decimalValue ms))"
    using digits_less_iff [OF le(1) E(4) S(4)] digits_less_iff [OF le(2) E(5) S(5)]
      digits_eq_iff [OF le(1) E(4) S(4)] by simp
  also have "\<dots> = (12 * decimalValue ye + decimalValue me < 12 * decimalValue ys + decimalValue ms)"
    using E(6,7) S(6,7) by arith
  also have "\<dots> = monthPrecedes e s"
    using E(1,2) S(1,2) by (simp add: monthPrecedes_def monthIndex_def)
  finally show ?thesis .
qed

lemma month_nonempty: "MONTH_PATTERN_test s \<Longrightarrow> s \<noteq> []"
  by auto


text \<open>
  C2. For a start month \<open>s\<close> in \<open>YYYY-MM\<close> format, an end month \<open>e\<close> that is absent, null
  or in \<open>YYYY-MM\<close> format, and any \<open>isCurrent\<close>: \<open>validateExperienceChronology\<close> throws a
  400 \<open>BAD_REQUEST\<close> error exactly when \<open>isCurrent\<close> holds and \<open>e\<close> is a month, or \<open>e\<close> is a
  month that precedes \<open>s\<close> in the calendar; otherwise it returns normally. Start
  \<open>2024-05\<close> with end \<open>2023-01\<close> fails.
\<close>

theorem validateExperienceChronology_throws_iff:
  assumes "MONTH_PATTERN_test s"
    and "case e of Given m \<Rightarrow> MONTH_PATTERN_test m | _ \<Rightarrow> True"
  shows "(isBadRequest (validateExperienceChronology s e isCurrent')
            = ((isCurrent' \<and> (\<exists>m. e = Given m)) \<or> (\<exists>m. e = Given m \<and> monthPrecedes m s)))
       \<and> (\<not> isBadRequest (validateExperienceChronology s e isCurrent')
            \<longrightarrow> validateExperienceChronology s e isCurrent' = Inr ())
       \<and> isBadRequest (validateExperienceChronology ''2024-05'' (Given ''2023-01'') False)"
proof (intro conjI)
  show "isBadRequest (validateExperienceChronology s e isCurrent')
           = ((isCurrent' \<and> (\<exists>m. e = Given m)) \<or> (\<exists>m. e = Given m \<and> monthPrecedes m s))"
  proof (cases e)
    case (Given m)
    then have "MONTH_PATTERN_test m" using assms(2) by simp
    then have "m \<noteq> []" "js_string_less m s = monthPrecedes m s"
      using assms(1) by (auto simp: month_less_iff)
    then show ?thesis using Given
      by (simp add: validateExperienceChronology_def truthyString_def isBadRequest_def newAppError_def)
  qed (simp_all add: validateExperienceChronology_def truthyString_def isBadRequest_def)
  show "\<not> isBadRequest (validateExperienceChronology s e isCurrent')
           \<longrightarrow> validateExperienceChronology s e isCurrent' = Inr ()"
    by (simp add: validateExperienceChronology_def isBadRequest_def newAppError_def split: if_splits)
  show "isBadRequest (validateExperienceChronology ''2024-05'' (Given ''2023-01'') False)"
    by (simp add: validateExperienceChronology_def truthyString_def isBadRequest_def newAppError_def)
qed

theorem validateExperienceChronology_throws_iff_witness:
  "MONTH_PATTERN_test ''2024-05'' \<and> MONTH_PATTERN_test ''2023-01''
     \<and> monthPrecedes ''2023-01'' ''2024-05''
     \<and> isBadRequest (validateExperienceChronology ''2024-05'' (Given ''2023-01'') False)
     \<and> validateExperienceChronology ''2023-01'' (Given ''2024-05'') False = Inr ()
     \<and> isBadRequest (validateExperienceChronology ''2023-01'' (Given ''2024-05'') True)
     \<and> validateExperienceChronology ''2023-01'' Null True = Inr ()"
proof -
  have s: "MONTH_PATTERN_test ''2024-05''" and e: "MONTH_PATTERN_test ''2023-01''"
    by (simp_all add: isDigit_def)
  have p: "monthPrecedes ''2023-01'' ''2024-05''" and q: "\<not> monthPrecedes ''2024-05'' ''2023-01''"
    by (simp_all add: monthPrecedes_def monthIndex_def decimalValue_def digitValue_def)
  have e': "case Given ''2023-01'' of Given m \<Rightarrow> MONTH_PATTERN_test m | _ \<Rightarrow> True"
    and s': "case Given ''2024-05'' of Given m \<Rightarrow> MONTH_PATTERN_test m | _ \<Rightarrow> True"
    and n': "case (Null :: string nullish) of Given m \<Rightarrow> MONTH_PATTERN_test m | _ \<Rightarrow> True"
    using s e by simp_all
  show ?thesis
    using s e p q
      validateExperienceChronology_throws_iff [OF s e', of False]
      validateExperienceChronology_throws_iff [OF e s', of False]
      validateExperienceChronology_throws_iff [OF e s', of True]
      validateExperienceChronology_throws_iff [OF e n', of True]
    by simp
qed

section \<open>Tag and highlight lists\<close>

lemma filter_seen_insert:
  "filter (\<lambda>y. toLowerCase y \<noteq> k) (filter (\<lambda>y. toLowerCase y \<notin> seen) xs)
     = filter (\<lambda>y. toLowerCase y \<notin> insert k seen) xs"
  by (induction xs) auto

lemma trimmedEntries_Cons_str: "trimmedEntries (JStr s # es) = trim s # trimmedEntries es"
  by (simp add: trimmedEntries_def)

lemma trimmedEntries_Nil: "trimmedEntries [] = []"
  by (simp add: trimmedEntries_def)


lemma dedupeEntries_accepts:
  "\<forall>e\<in>set entries. acceptableEntry bound e \<Longrightarrow>
     dedupeEntries bound f entries deduped seen
       = Inr (deduped @ firstSeen (filter (\<lambda>y. toLowerCase y \<notin> seen) (trimmedEntries entries)))"
proof (induction entries arbitrary: deduped seen)
  case Nil
  show ?case by (simp add: trimmedEntries_Nil)
next
  case (Cons e es)
  from Cons.prems obtain s where e: "e = JStr s" and ok: "trim s \<noteq> []" "\<not> bound < length (trim s)"
    by (cases e) (auto simp: acceptableEntry_def)
  have rest: "\<forall>e\<in>set es. acceptableEntry bound e" using Cons.prems by simp
  show ?case
  proof (cases "toLowerCase (trim s) \<in> seen")
    case True
    have "dedupeEntries bound f (e # es) deduped seen = dedupeEntries bound f es deduped seen"
      using e ok True by (simp add: Let_def)
    also have "\<dots> = Inr (deduped @ firstSeen (filter (\<lambda>y. toLowerCase y \<notin> seen) (trimmedEntries es)))"
      by (rule Cons.IH [OF rest])
    finally show ?thesis using e True by (simp add: trimmedEntries_Cons_str)
  next
    case False
    have "dedupeEntries bound f (e # es) deduped seen
            = dedupeEntries bound f es (deduped @ [trim s]) (insert (toLowerCase (trim s)) seen)"
      using e ok False by (simp add: Let_def)
    also have "\<dots> = Inr ((deduped @ [trim s]) @ firstSeen
                  (filter (\<lambda>y. toLowerCase y \<notin> insert (toLowerCase (trim s)) seen) (trimmedEntries es)))"
      by (rule Cons.IH [OF rest])
    finally have run: "dedupeEntries bound f (e # es) deduped seen
        = Inr ((deduped @ [trim s]) @ firstSeen
            (filter (\<lambda>y. toLowerCase y \<notin> insert (toLowerCase (trim s)) seen) (trimmedEntries es)))" .
    have "filter (\<lambda>y. toLowerCase y \<notin> seen) (trimmedEntries (e # es))
            = trim s # filter (\<lambda>y. toLowerCase y \<notin> seen) (trimmedEntries es)"
      using e False by (simp add: trimmedEntries_Cons_str)
    then have "firstSeen (filter (\<lambda>y. toLowerCase y \<notin> seen) (trimmedEntries (e # es)))
            = trim s # firstSeen (filter (\<lambda>y. toLowerCase y \<notin> insert (toLowerCase (trim s)) seen)
                                   (trimmedEntries es))"
      by (simp only: firstSeen.simps filter_seen_insert)
    then show ?thesis using run by (simp only: append_assoc append_Cons append_Nil)
  qed
qed

lemma dedupeEntries_rejects:
  "\<exists>e\<in>set entries. \<not> acceptableEntry bound e \<Longrightarrow>
     isBadRequest (dedupeEntries bound f entries deduped seen)"
proof (induction entries arbitrary: deduped seen)
  case Nil
  then show ?case by simp
next
  case (Cons e es)
  show ?case
  proof (cases "acceptableEntry bound e")
    case True
    then obtain s where e: "e = JStr s" and ok: "trim s \<noteq> []" "\<not> bound < length (trim s)"
      by (cases e) (auto simp: acceptableEntry_def)
    from True Cons.prems have bad: "\<exists>e\<in>set es. \<not> acceptableEntry bound e" by auto
    show ?thesis
    proof (cases "toLowerCase (trim s) \<in> seen")
      case True
      have "dedupeEntries bound f (e # es) deduped seen = dedupeEntries bound f es deduped seen"
        using e ok True by (simp add: Let_def)
      then show ?thesis using Cons.IH [OF bad] by simp
    next
      case False
      have "dedupeEntries bound f (e # es) deduped seen
              = dedupeEntries bound f es (deduped @ [trim s]) (insert (toLowerCase (trim s)) seen)"
        using e ok False by (simp add: Let_def)
      then show ?thesis using Cons.IH [OF bad] by simp
    qed
  next
    case False
    show ?thesis
    proof (cases e)
      case (JStr s)
      then have "trim s = [] \<or> bound < length (trim s)"
        using False by (auto simp: acceptableEntry_def)
      then show ?thesis using JStr
        by (simp add: Let_def isBadRequest_def newAppError_def)
    qed (simp_all add: isBadRequest_def newAppError_def)
  qed
qed


lemma acceptableEntry_iff:
  "(\<not> acceptableEntry bound e)
     = ((\<forall>s. e \<noteq> JStr s) \<or> (\<exists>s. e = JStr s \<and> (trim s = [] \<or> bound < length (trim s))))"
  by (cases e) (auto simp: acceptableEntry_def)

lemma dedupeEntries_decides:
  "isBadRequest (dedupeEntries bound f entries [] {})
     = (\<exists>e\<in>set entries. \<not> acceptableEntry bound e)"
proof (cases "\<forall>e\<in>set entries. acceptableEntry bound e")
  case True
  then show ?thesis using dedupeEntries_accepts [OF True, of f "[]" "{}"]
    by (simp add: isBadRequest_def)
next
  case False
  then have "\<exists>e\<in>set entries. \<not> acceptableEntry bound e" by simp
  then show ?thesis using dedupeEntries_rejects [of entries bound f "[]" "{}"] by simp
qed

text \<open>
  \<open>firstSeen\<close> is deduplication by lower-cased form that keeps the first occurrence: its
  result is a subsequence of its argument, with the same lower-cased forms, each once.
\<close>

lemma firstSeen_keys: "toLowerCase ` set (firstSeen xs) = toLowerCase ` set xs"
proof (induction xs rule: firstSeen.induct)
  case 1
  show ?case by simp
next
  case (2 x xs)
  then show ?case by auto
qed

lemma firstSeen_distinct: "distinct (map toLowerCase (firstSeen xs))"
proof (induction xs rule: firstSeen.induct)
  case 1
  show ?case by simp
next
  case (2 x xs)
  have "toLowerCase x \<notin> toLowerCase ` set (filter (\<lambda>y. toLowerCase y \<noteq> toLowerCase x) xs)"
    by auto
  then have "toLowerCase x \<notin> toLowerCase ` set (firstSeen (filter (\<lambda>y. toLowerCase y \<noteq> toLowerCase x) xs))"
    unfolding firstSeen_keys .
  then show ?case using 2 by simp
qed

lemma firstSeen_subseq: "subseq (firstSeen xs) xs"
proof (induction xs rule: firstSeen.induct)
  case 1
  show ?case by simp
next
  case (2 x xs)
  have "subseq (filter (\<lambda>y. toLowerCase y \<noteq> toLowerCase x) xs) xs" by simp
  with 2 have "subseq (firstSeen (filter (\<lambda>y. toLowerCase y \<noteq> toLowerCase x) xs)) xs"
    by (rule subseq_order.trans)
  then show ?case by simp
qed

text \<open>
  C3. On an array, \<open>validateTags\<close> (bound 40) and \<open>validateHighlights\<close> (bound 200) throw
  400 \<open>BAD_REQUEST\<close> exactly when some entry is not a string, is empty after trimming or
  is longer than the bound after trimming; otherwise they return the trimmed entries,
  each kept at its first occurrence up to letter case, in order. \<open>["Swift","swift"]\<close>
  gives \<open>["Swift"]\<close>, and \<open>["", "x".repeat(41)]\<close> is rejected.
\<close>

theorem validateTags_dedupes_or_throws:
  "(isBadRequest (validateTags (Some (JArr entries)) f)
      = (\<exists>e\<in>set entries. (\<forall>s. e \<noteq> JStr s) \<or>
            (\<exists>s. e = JStr s \<and> (trim s = [] \<or> 40 < length (trim s)))))
   \<and> (\<not> isBadRequest (validateTags (Some (JArr entries)) f)
        \<longrightarrow> validateTags (Some (JArr entries)) f = Inr (firstSeen (trimmedEntries entries)))
   \<and> (isBadRequest (validateHighlights (Some (JArr entries)) f)
      = (\<exists>e\<in>set entries. (\<forall>s. e \<noteq> JStr s) \<or>
            (\<exists>s. e = JStr s \<and> (trim s = [] \<or> 200 < length (trim s)))))
   \<and> (\<not> isBadRequest (validateHighlights (Some (JArr entries)) f)
        \<longrightarrow> validateHighlights (Some (JArr entries)) f = Inr (firstSeen (trimmedEntries entries)))
   \<and> validateTags (Some (JArr [JStr ''Swift'', JStr ''swift''])) ''tags'' = Inr [''Swift'']
   \<and> isBadRequest (validateTags (Some (JArr [JStr [], JStr (replicate 41 CHR ''x'')])) ''tags'')"
proof -
  have decide: "isBadRequest (dedupeEntries bound f entries [] {})
      = (\<exists>e\<in>set entries. (\<forall>s. e \<noteq> JStr s) \<or>
            (\<exists>s. e = JStr s \<and> (trim s = [] \<or> bound < length (trim s))))" for bound
    by (simp only: dedupeEntries_decides acceptableEntry_iff)
  have result: "\<not> isBadRequest (dedupeEntries bound f entries [] {})
      \<longrightarrow> dedupeEntries bound f entries [] {} = Inr (firstSeen (trimmedEntries entries))" for bound
  proof
    assume "\<not> isBadRequest (dedupeEntries bound f entries [] {})"
    then have "\<forall>e\<in>set entries. acceptableEntry bound e"
      by (simp add: dedupeEntries_decides)
    then show "dedupeEntries bound f entries [] {} = Inr (firstSeen (trimmedEntries entries))"
      using dedupeEntries_accepts [of entries bound f "[]" "{}"] by simp
  qed
  have ex1: "validateTags (Some (JArr [JStr ''Swift'', JStr ''swift''])) ''tags'' = Inr [''Swift'']"
    by code_simp
  have ex2: "isBadRequest (validateTags (Some (JArr [JStr [], JStr (replicate 41 CHR ''x'')])) ''tags'')"
    by (simp add: validateTags_def trim_def isBadRequest_def newAppError_def)
  show ?thesis
    using decide [of 40] decide [of 200] result [of 40] result [of 200] ex1 ex2
    by (simp only: validateTags_def validateHighlights_def option.case json.case simp_thms)
qed

theorem validateTags_dedupes_or_throws_witness:
  "validateTags (Some (JArr [JStr '' Node.js'', JStr ''node.JS '', JStr ''Go''])) ''tags''
      = Inr [''Node.js'', ''Go'']
   \<and> validateHighlights (Some (JArr [JStr ''Shipped billing'', JStr ''shipped Billing''])) ''highlights''
      = Inr [''Shipped billing'']
   \<and> isBadRequest (validateTags (Some (JArr [JStr ''ok'', JNum 3])) ''tags'')
   \<and> isBadRequest (validateHighlights (Some (JArr [JStr ''   ''])) ''highlights'')"
proof -
  let ?a = "[JStr '' Node.js'', JStr ''node.JS '', JStr ''Go'']"
  let ?b = "[JStr ''Shipped billing'', JStr ''shipped Billing'']"
  let ?c = "[JStr ''ok'', JNum 3]"
  let ?d = "[JStr ''   '']"
  have a: "\<not> (\<exists>e\<in>set ?a. (\<forall>s. e \<noteq> JStr s) \<or>
            (\<exists>s. e = JStr s \<and> (trim s = [] \<or> 40 < length (trim s))))"
    by (simp add: trim_def isWhiteSpace_def)
  have b: "\<not> (\<exists>e\<in>set ?b. (\<forall>s. e \<noteq> JStr s) \<or>
            (\<exists>s. e = JStr s \<and> (trim s = [] \<or> 200 < length (trim s))))"
    by (simp add: trim_def isWhiteSpace_def)
  have c: "\<exists>e\<in>set ?c. (\<forall>s. e \<noteq> JStr s) \<or>
            (\<exists>s. e = JStr s \<and> (trim s = [] \<or> 40 < length (trim s)))"
    by simp
  have d: "\<exists>e\<in>set ?d. (\<forall>s. e \<noteq> JStr s) \<or>
            (\<exists>s. e = JStr s \<and> (trim s = [] \<or> 200 < length (trim s)))"
    by (simp add: trim_def isWhiteSpace_def)
  have fa: "firstSeen (trimmedEntries ?a) = [''Node.js'', ''Go'']"
    by code_simp
  have fb: "firstSeen (trimmedEntries ?b) = [''Shipped billing'']"
    by code_simp
  show ?thesis
    using validateTags_dedupes_or_throws [of ?a "''tags''"]
      validateTags_dedupes_or_throws [of ?b "''highlights''"]
      validateTags_dedupes_or_throws [of ?c "''tags''"]
      validateTags_dedupes_or_throws [of ?d "''highlights''"]
      a b c d fa fb
    by (simp only: simp_thms)
qed

section \<open>Pagination\<close>










section \<open>URL check\<close>

lemma invalidImageEntry_iff:
  "(\<not> invalidImageEntry URL_parse v) = isHttpUrlValue URL_parse (Some v)"
  by (cases v)
    (auto simp: invalidImageEntry_def isHttpUrlValue_def isValidHttpUrl_def protocol_def
       URL_PROTOCOLS_def split: option.splits)

lemma find_None_iff_all: "(find P xs = None) = (\<forall>x\<in>set xs. \<not> P x)"
  by (induction xs) auto

text \<open>
  C9. The URL check of \<open>validateImageLinks\<close> and \<open>validateExternalLinks\<close> accepts a value
  exactly when it is a string that parses as an absolute URL with scheme \<open>http\<close> or
  \<open>https\<close>. An array of images is returned when every entry passes and rejected with
  400 \<open>BAD_REQUEST\<close> otherwise; a link with a valid label is rejected exactly when its
  \<open>url\<close> fails the check. Given the parser's reading of them, \<open>https://example.com/x\<close>
  passes, and \<open>ftp://x\<close> and a string that does not parse are rejected.
\<close>

theorem url_check_accepts_http_only:
  "((\<not> invalidImageEntry URL_parse v) = isHttpUrlValue URL_parse (Some v))
   \<and> ((validateImageLinks URL_parse (Some (JArr entries)) f = Inr entries)
        = (\<forall>e\<in>set entries. isHttpUrlValue URL_parse (Some e)))
   \<and> (isBadRequest (validateImageLinks URL_parse (Some (JArr entries)) f)
        = (\<exists>e\<in>set entries. \<not> isHttpUrlValue URL_parse (Some e)))
   \<and> (map_of members ''label'' = Some (JStr l) \<and> trim l \<noteq> [] \<and> length (trim l) \<le> 40
        \<longrightarrow> isBadRequest (validateExternalLinks URL_parse (Some (JArr [JObj members])) f)
              = (\<not> isHttpUrlValue URL_parse (map_of members ''url'')))
   \<and> (URL_parse ''https://example.com/x'' = Some \<lparr>scheme = ''https''\<rparr>
        \<longrightarrow> isHttpUrlValue URL_parse (Some (JStr ''https://example.com/x'')))
   \<and> (URL_parse ''ftp://x'' = Some \<lparr>scheme = ''ftp''\<rparr>
        \<longrightarrow> isBadRequest (validateImageLinks URL_parse (Some (JArr [JStr ''ftp://x''])) f))
   \<and> (URL_parse s = None
        \<longrightarrow> isBadRequest (validateImageLinks URL_parse (Some (JArr [JStr s])) f))"
proof -
  have c1: "(\<not> invalidImageEntry URL_parse v) = isHttpUrlValue URL_parse (Some v)" for v
    by (rule invalidImageEntry_iff)
  have none: "(find (invalidImageEntry URL_parse) es = None)
                = (\<forall>e\<in>set es. isHttpUrlValue URL_parse (Some e))" for es
    by (simp add: find_None_iff_all c1)
  have c2: "(validateImageLinks URL_parse (Some (JArr es)) f = Inr es)
        = (\<forall>e\<in>set es. isHttpUrlValue URL_parse (Some e))" for es
    using none [of es] by (cases "find (invalidImageEntry URL_parse) es") (auto simp: validateImageLinks_def)
  have c3: "isBadRequest (validateImageLinks URL_parse (Some (JArr es)) f)
        = (\<exists>e\<in>set es. \<not> isHttpUrlValue URL_parse (Some e))" for es
    using none [of es]
    by (cases "find (invalidImageEntry URL_parse) es")
      (auto simp: validateImageLinks_def isBadRequest_def newAppError_def)
  have c4: "map_of members ''label'' = Some (JStr l) \<and> trim l \<noteq> [] \<and> length (trim l) \<le> 40
        \<longrightarrow> isBadRequest (validateExternalLinks URL_parse (Some (JArr [JObj members])) f)
              = (\<not> isHttpUrlValue URL_parse (map_of members ''url''))"
  proof
    assume a: "map_of members ''label'' = Some (JStr l) \<and> trim l \<noteq> [] \<and> length (trim l) \<le> 40"
    show "isBadRequest (validateExternalLinks URL_parse (Some (JArr [JObj members])) f)
              = (\<not> isHttpUrlValue URL_parse (map_of members ''url''))"
    proof (cases "map_of members ''url''")
      case None
      then show ?thesis using a
        by (simp add: validateExternalLinks_def isHttpUrlValue_def isBadRequest_def newAppError_def)
    next
      case (Some u)
      then show ?thesis using a c1 [of u]
        by (cases u)
          (auto simp: validateExternalLinks_def isBadRequest_def newAppError_def Let_def
             invalidImageEntry_def isHttpUrlValue_def)
    qed
  qed
  have c5: "URL_parse ''https://example.com/x'' = Some \<lparr>scheme = ''https''\<rparr>
        \<longrightarrow> isHttpUrlValue URL_parse (Some (JStr ''https://example.com/x''))"
    by (simp add: isHttpUrlValue_def)
  have c6: "URL_parse ''ftp://x'' = Some \<lparr>scheme = ''ftp''\<rparr>
        \<longrightarrow> isBadRequest (validateImageLinks URL_parse (Some (JArr [JStr ''ftp://x''])) f)"
    unfolding c3 by (simp add: isHttpUrlValue_def)
  have c7: "URL_parse s = None
        \<longrightarrow> isBadRequest (validateImageLinks URL_parse (Some (JArr [JStr s])) f)"
    unfolding c3 by (simp add: isHttpUrlValue_def)
  show ?thesis using c1 [of v] c2 [of entries] c3 [of entries] c4 c5 c6 c7 by blast
qed

theorem url_check_accepts_http_only_witness:
  "isHttpUrlValue schemeParser (Some (JStr ''https://example.com/x''))
   \<and> validateImageLinks schemeParser (Some (JArr [JStr ''https://example.com/x''])) ''images''
       = Inr [JStr ''https://example.com/x'']
   \<and> isBadRequest (validateImageLinks schemeParser (Some (JArr [JStr ''ftp://x''])) ''images'')
   \<and> isBadRequest (validateImageLinks schemeParser (Some (JArr [JStr ''not a url''])) ''images'')
   \<and> isBadRequest
        (validateImageLinks schemeParser
           (Some (JArr [JStr ''https://example.com/x'', JNum 3])) ''images'')
   \<and> isBadRequest
        (validateExternalLinks schemeParser
           (Some (JArr [JObj [(''label'', JStr ''Company''), (''url'', JStr ''ftp://x'')]])) ''links'')"
proof -
  have p1: "schemeParser ''https://example.com/x'' = Some \<lparr>scheme = ''https''\<rparr>"
    and p2: "schemeParser ''ftp://x'' = Some \<lparr>scheme = ''ftp''\<rparr>"
    and p3: "schemeParser ''not a url'' = None"
    by (simp_all add: schemeParser_def startsWith_def)
  have ok: "isHttpUrlValue schemeParser (Some (JStr ''https://example.com/x''))"
    and no3: "\<not> isHttpUrlValue schemeParser (Some (JNum 3))"
    and noftp: "\<not> isHttpUrlValue schemeParser (Some (JStr ''ftp://x''))"
    by (simp_all add: isHttpUrlValue_def p1 p2)
  note T = url_check_accepts_http_only [where URL_parse = schemeParser]
  have r1: "isHttpUrlValue schemeParser (Some (JStr ''https://example.com/x''))"
    by (rule T [THEN conjunct2, THEN conjunct2, THEN conjunct2, THEN conjunct2, THEN conjunct1,
          rule_format, OF p1])
  have "\<forall>e\<in>set [JStr ''https://example.com/x'']. isHttpUrlValue schemeParser (Some e)"
    using ok by simp
  then have r2: "validateImageLinks schemeParser (Some (JArr [JStr ''https://example.com/x''])) ''images''
       = Inr [JStr ''https://example.com/x'']"
    unfolding T [where entries = "[JStr ''https://example.com/x'']" and f = "''images''",
                 THEN conjunct2, THEN conjunct1] .
  have r3: "isBadRequest (validateImageLinks schemeParser (Some (JArr [JStr ''ftp://x''])) ''images'')"
    by (rule T [THEN conjunct2, THEN conjunct2, THEN conjunct2, THEN conjunct2, THEN conjunct2,
          THEN conjunct1, rule_format, OF p2])
  have r4: "isBadRequest (validateImageLinks schemeParser (Some (JArr [JStr ''not a url''])) ''images'')"
    by (rule T [THEN conjunct2, THEN conjunct2, THEN conjunct2, THEN conjunct2, THEN conjunct2,
          THEN conjunct2, rule_format, OF p3])
  have "\<exists>e\<in>set [JStr ''https://example.com/x'', JNum 3]. \<not> isHttpUrlValue schemeParser (Some e)"
    using no3 by simp
  then have r5: "isBadRequest
        (validateImageLinks schemeParser
           (Some (JArr [JStr ''https://example.com/x'', JNum 3])) ''images'')"
    unfolding T [where entries = "[JStr ''https://example.com/x'', JNum 3]" and f = "''images''",
                 THEN conjunct2, THEN conjunct2, THEN conjunct1] .
  let ?m = "[(''label'', JStr ''Company''), (''url'', JStr ''ftp://x'')]"
  have lbl: "map_of ?m ''label'' = Some (JStr ''Company'') \<and> trim ''Company'' \<noteq> []
               \<and> length (trim ''Company'') \<le> 40"
    by (simp add: trim_def isWhiteSpace_def)
  have "\<not> isHttpUrlValue schemeParser (map_of ?m ''url'')"
    using noftp by simp
  then have r6: "isBadRequest
        (validateExternalLinks schemeParser (Some (JArr [JObj ?m])) ''links'')"
    unfolding T [where members = ?m and l = "''Company''" and f = "''links''",
                 THEN conjunct2, THEN conjunct2, THEN conjunct2, THEN conjunct1, rule_format, OF lbl] .
  show ?thesis using r1 r2 r3 r4 r5 r6 by (intro conjI)
qed

section \<open>Error normalisation\<close>

text \<open>
  C5, as the handler decides it. An error whose \<open>type\<close> is \<open>entity.too.large\<close> is answered
  with 400 \<open>BAD_REQUEST\<close> before any other case is looked at. For every other error: a
  known ORM error is answered by its code (P2002 with 409 \<open>CONFLICT\<close>, P2003 with 400
  \<open>BAD_REQUEST\<close>, P2025 with 404 \<open>NOT_FOUND\<close>, any other code with 500
  \<open>INTERNAL_ERROR\<close>) with \<open>meta\<close> as details; an \<open>AppError\<close> has its status, code, message
  and details passed through; anything else is answered with 500 \<open>INTERNAL_ERROR\<close>,
  without details when \<open>NODE_ENV\<close> is \<open>production\<close>, and otherwise with the error's
  message as details (\<open>Unknown error\<close> for a value that is not an \<open>Error\<close>).
\<close>

theorem errorHandler_envelope:
  "(typeProperty error = Some ''entity.too.large''
      \<longrightarrow> errorHandler env error
            = \<lparr>status = 400, errorCode = ''BAD_REQUEST'',
               errorMessage = ''Upload payload too large. Max 10 images, 5MB each.'',
               errorDetails = None\<rparr>)
   \<and> (typeProperty error \<noteq> Some ''entity.too.large'' \<longrightarrow>
        (\<forall>c meta. error = PrismaKnownError c meta \<longrightarrow>
           errorDetails (errorHandler env error) = meta \<and>
           (status (errorHandler env error), errorCode (errorHandler env error))
             = (if c = ''P2002'' then (409, ''CONFLICT'')
                else if c = ''P2003'' then (400, ''BAD_REQUEST'')
                else if c = ''P2025'' then (404, ''NOT_FOUND'')
                else (500, ''INTERNAL_ERROR'')))
        \<and> (\<forall>e. error = ThrownAppError e \<longrightarrow>
              errorHandler env error
                = \<lparr>status = statusCode e, errorCode = code e, errorMessage = message e,
                   errorDetails = details e\<rparr>)
        \<and> (\<not> instanceofAppError error \<and> \<not> isPrismaKnownError error \<longrightarrow>
              status (errorHandler env error) = 500
              \<and> errorCode (errorHandler env error) = ''INTERNAL_ERROR''
              \<and> errorDetails (errorHandler env error)
                  = (if NODE_ENV env = Some ''production'' then None
                     else Some (JStr (case error of HttpError t m \<Rightarrow> m | OtherError m \<Rightarrow> m
                                      | _ \<Rightarrow> ''Unknown error'')))))"
proof (cases error)
  case (ThrownAppError e)
  then show ?thesis
    by (simp add: errorHandler_def typeProperty_def instanceofAppError_def)
next
  case (PrismaKnownError c meta)
  then show ?thesis
    by (simp add: errorHandler_def typeProperty_def normalizePrismaError_def isPrismaKnownError_def)
next
  case (HttpError t m)
  then show ?thesis
    by (simp add: errorHandler_def typeProperty_def instanceofAppError_def isPrismaKnownError_def)
next
  case (OtherError m)
  then show ?thesis
    by (simp add: errorHandler_def typeProperty_def instanceofAppError_def isPrismaKnownError_def)
next
  case NonError
  then show ?thesis
    by (simp add: errorHandler_def typeProperty_def instanceofAppError_def isPrismaKnownError_def)
qed

text \<open>
  The error that the JSON body parser raises for a body over its size limit is neither an
  \<open>AppError\<close> nor an ORM error, and it is answered with 400 \<open>BAD_REQUEST\<close>, not with 500
  \<open>INTERNAL_ERROR\<close>.
\<close>

theorem errorHandler_payload_too_large_counterexample:
  "\<not> instanceofAppError (HttpError ''entity.too.large'' ''request entity too large'')
   \<and> \<not> isPrismaKnownError (HttpError ''entity.too.large'' ''request entity too large'')
   \<and> status (errorHandler
        \<lparr>NODE_ENV = Some ''production'', JWT_SECRET = None, SUPABASE_URL = None,
         SUPABASE_SERVICE_ROLE_KEY = None, SUPABASE_STORAGE_BUCKET = None\<rparr>
        (HttpError ''entity.too.large'' ''request entity too large'')) = 400
   \<and> errorCode (errorHandler
        \<lparr>NODE_ENV = Some ''production'', JWT_SECRET = None, SUPABASE_URL = None,
         SUPABASE_SERVICE_ROLE_KEY = None, SUPABASE_STORAGE_BUCKET = None\<rparr>
        (HttpError ''entity.too.large'' ''request entity too large'')) = ''BAD_REQUEST''
   \<and> status (errorHandler
        \<lparr>NODE_ENV = Some ''production'', JWT_SECRET = None, SUPABASE_URL = None,
         SUPABASE_SERVICE_ROLE_KEY = None, SUPABASE_STORAGE_BUCKET = None\<rparr>
        (HttpError ''entity.too.large'' ''request entity too large'')) \<noteq> 500
   \<and> errorCode (errorHandler
        \<lparr>NODE_ENV = Some ''production'', JWT_SECRET = None, SUPABASE_URL = None,
         SUPABASE_SERVICE_ROLE_KEY = None, SUPABASE_STORAGE_BUCKET = None\<rparr>
        (HttpError ''entity.too.large'' ''request entity too large'')) \<noteq> ''INTERNAL_ERROR''"
  by (simp add: errorHandler_def typeProperty_def instanceofAppError_def isPrismaKnownError_def)

theorem errorHandler_envelope_witness:
  "errorHandler
      \<lparr>NODE_ENV = Some ''development'', JWT_SECRET = None, SUPABASE_URL = None,
       SUPABASE_SERVICE_ROLE_KEY = None, SUPABASE_STORAGE_BUCKET = None\<rparr>
      (ThrownAppError \<lparr>statusCode = 404, code = ''NOT_FOUND'', message = ''Project not found'',
                        details = None\<rparr>)
     = \<lparr>status = 404, errorCode = ''NOT_FOUND'', errorMessage = ''Project not found'',
        errorDetails = None\<rparr>
   \<and> status (errorHandler
        \<lparr>NODE_ENV = Some ''development'', JWT_SECRET = None, SUPABASE_URL = None,
         SUPABASE_SERVICE_ROLE_KEY = None, SUPABASE_STORAGE_BUCKET = None\<rparr>
        (PrismaKnownError ''P2002'' None)) = 409
   \<and> errorCode (errorHandler
        \<lparr>NODE_ENV = Some ''development'', JWT_SECRET = None, SUPABASE_URL = None,
         SUPABASE_SERVICE_ROLE_KEY = None, SUPABASE_STORAGE_BUCKET = None\<rparr>
        (PrismaKnownError ''P2002'' None)) = ''CONFLICT''
   \<and> errorDetails (errorHandler
        \<lparr>NODE_ENV = Some ''development'', JWT_SECRET = None, SUPABASE_URL = None,
         SUPABASE_SERVICE_ROLE_KEY = None, SUPABASE_STORAGE_BUCKET = None\<rparr>
        (OtherError ''connection lost'')) = Some (JStr ''connection lost'')
   \<and> errorDetails (errorHandler
        \<lparr>NODE_ENV = Some ''production'', JWT_SECRET = None, SUPABASE_URL = None,
         SUPABASE_SERVICE_ROLE_KEY = None, SUPABASE_STORAGE_BUCKET = None\<rparr>
        (OtherError ''connection lost'')) = None
   \<and> status (errorHandler
        \<lparr>NODE_ENV = Some ''production'', JWT_SECRET = None, SUPABASE_URL = None,
         SUPABASE_SERVICE_ROLE_KEY = None, SUPABASE_STORAGE_BUCKET = None\<rparr>
        (HttpError ''entity.too.large'' ''request entity too large'')) = 400"
proof -
  let ?dev = "\<lparr>NODE_ENV = Some ''development'', JWT_SECRET = None, SUPABASE_URL = None,
       SUPABASE_SERVICE_ROLE_KEY = None, SUPABASE_STORAGE_BUCKET = None\<rparr>"
  let ?prod = "\<lparr>NODE_ENV = Some ''production'', JWT_SECRET = None, SUPABASE_URL = None,
       SUPABASE_SERVICE_ROLE_KEY = None, SUPABASE_STORAGE_BUCKET = None\<rparr>"
  let ?app = "ThrownAppError \<lparr>statusCode = 404, code = ''NOT_FOUND'', message = ''Project not found'',
                        details = None\<rparr>"
  show ?thesis
    using errorHandler_envelope [of ?app ?dev]
      errorHandler_envelope [of "PrismaKnownError ''P2002'' None" ?dev]
      errorHandler_envelope [of "OtherError ''connection lost''" ?dev]
      errorHandler_envelope [of "OtherError ''connection lost''" ?prod]
      errorHandler_envelope [of "HttpError ''entity.too.large'' ''request entity too large''" ?prod]
    by (simp add: typeProperty_def instanceofAppError_def isPrismaKnownError_def)
qed

section \<open>Deleting a category\<close>

text \<open>
  C6. \<open>deleteCategory\<close> on a missing category throws 404 \<open>NOT_FOUND\<close>; on a category with
  at least one blog it throws 409 \<open>CONFLICT\<close>; in both cases the categories are unchanged
  and the only ORM call made is the lookup. Only for a category without blogs is the
  delete call made: the category is removed and the status is 204.
\<close>

theorem deleteCategory_guards_delete:
  "(categories db cid = None \<longrightarrow>
      fst (deleteCategory db cid)
        = Inl (ThrownAppError (newAppError 404 ''NOT_FOUND'' ''Category not found''))
      \<and> categories (snd (deleteCategory db cid)) = categories db
      \<and> calls (snd (deleteCategory db cid)) = calls db @ [CategoryFindUnique cid])
   \<and> (categories db cid \<noteq> None \<and> countBlogs db cid > 0 \<longrightarrow>
      fst (deleteCategory db cid)
        = Inl (ThrownAppError
                 (newAppError 409 ''CONFLICT'' ''Cannot delete category with existing blogs''))
      \<and> categories (snd (deleteCategory db cid)) = categories db
      \<and> calls (snd (deleteCategory db cid)) = calls db @ [CategoryFindUnique cid])
   \<and> (categories db cid \<noteq> None \<and> countBlogs db cid = 0 \<longrightarrow>
      fst (deleteCategory db cid) = Inr 204
      \<and> categories (snd (deleteCategory db cid)) = (categories db)(cid := None)
      \<and> calls (snd (deleteCategory db cid))
          = calls db @ [CategoryFindUnique cid, CategoryDelete cid])
   \<and> ((fst (deleteCategory db cid) = Inr 204)
        = (categories db cid \<noteq> None \<and> countBlogs db cid = 0))
   \<and> blogs (snd (deleteCategory db cid)) = blogs db"
proof (cases "categories db cid")
  case None
  then show ?thesis
    by (simp add: deleteCategory_def category_findUnique_def)
next
  case (Some c)
  show ?thesis
  proof (cases "countBlogs db cid > 0")
    case True
    then show ?thesis using Some
      by (simp add: deleteCategory_def category_findUnique_def)
  next
    case False
    then have z: "countBlogs db cid = 0" by simp
    have z': "countBlogs (db\<lparr>calls := calls db @ [CategoryFindUnique cid]\<rparr>) cid = 0"
      using z by (simp add: countBlogs_def)
    show ?thesis using Some z z'
      by (simp add: deleteCategory_def category_findUnique_def category_delete_def Let_def)
  qed
qed

theorem deleteCategory_guards_delete_witness:
  "fst (deleteCategory
          \<lparr>categories = [''cat-1'' \<mapsto> \<lparr>name = ''Development'', description = None\<rparr>,
                         ''cat-2'' \<mapsto> \<lparr>name = ''Design'', description = None\<rparr>],
           blogs = [\<lparr>title = ''My Blog'', categoryId = ''cat-1''\<rparr>], calls = []\<rparr> ''cat-1'')
      = Inl (ThrownAppError
               (newAppError 409 ''CONFLICT'' ''Cannot delete category with existing blogs''))
   \<and> calls (snd (deleteCategory
          \<lparr>categories = [''cat-1'' \<mapsto> \<lparr>name = ''Development'', description = None\<rparr>,
                         ''cat-2'' \<mapsto> \<lparr>name = ''Design'', description = None\<rparr>],
           blogs = [\<lparr>title = ''My Blog'', categoryId = ''cat-1''\<rparr>], calls = []\<rparr> ''cat-1''))
      = [CategoryFindUnique ''cat-1'']
   \<and> fst (deleteCategory
          \<lparr>categories = [''cat-1'' \<mapsto> \<lparr>name = ''Development'', description = None\<rparr>,
                         ''cat-2'' \<mapsto> \<lparr>name = ''Design'', description = None\<rparr>],
           blogs = [\<lparr>title = ''My Blog'', categoryId = ''cat-1''\<rparr>], calls = []\<rparr> ''cat-2'')
      = Inr 204
   \<and> calls (snd (deleteCategory
          \<lparr>categories = [''cat-1'' \<mapsto> \<lparr>name = ''Development'', description = None\<rparr>,
                         ''cat-2'' \<mapsto> \<lparr>name = ''Design'', description = None\<rparr>],
           blogs = [\<lparr>title = ''My Blog'', categoryId = ''cat-1''\<rparr>], calls = []\<rparr> ''cat-2''))
      = [CategoryFindUnique ''cat-2'', CategoryDelete ''cat-2'']
   \<and> fst (deleteCategory
          \<lparr>categories = [''cat-1'' \<mapsto> \<lparr>name = ''Development'', description = None\<rparr>,
                         ''cat-2'' \<mapsto> \<lparr>name = ''Design'', description = None\<rparr>],
           blogs = [\<lparr>title = ''My Blog'', categoryId = ''cat-1''\<rparr>], calls = []\<rparr> ''missing'')
      = Inl (ThrownAppError (newAppError 404 ''NOT_FOUND'' ''Category not found''))"
proof -
  let ?db = "\<lparr>categories = [''cat-1'' \<mapsto> \<lparr>name = ''Development'', description = None\<rparr>,
                         ''cat-2'' \<mapsto> \<lparr>name = ''Design'', description = None\<rparr>],
           blogs = [\<lparr>title = ''My Blog'', categoryId = ''cat-1''\<rparr>], calls = []\<rparr>"
  have h1: "categories ?db ''cat-1'' \<noteq> None \<and> countBlogs ?db ''cat-1'' > 0"
    and h2: "categories ?db ''cat-2'' \<noteq> None \<and> countBlogs ?db ''cat-2'' = 0"
    and h3: "categories ?db ''missing'' = None"
    by (simp_all add: countBlogs_def)
  note T1 = deleteCategory_guards_delete [of ?db "''cat-1''", THEN conjunct2, THEN conjunct1,
              rule_format, OF h1]
  note T2 = deleteCategory_guards_delete [of ?db "''cat-2''", THEN conjunct2, THEN conjunct2,
              THEN conjunct1, rule_format, OF h2]
  note T3 = deleteCategory_guards_delete [of ?db "''missing''", THEN conjunct1, rule_format, OF h3]
  have c: "calls ?db = []" by simp
  show ?thesis
    using T1 [THEN conjunct1] T1 [THEN conjunct2, THEN conjunct2]
      T2 [THEN conjunct1] T2 [THEN conjunct2, THEN conjunct2] T3 [THEN conjunct1]
    unfolding c append_Nil by (intro conjI)
qed

section \<open>The authentication gate\<close>

lemma verifyAccessToken_Inr_iff:
  "(verifyAccessToken env jwt_verify token = Inr p)
     = (\<exists>secret decoded. JWT_SECRET env = Some secret \<and> secret \<noteq> [] \<and>
          jwt_verify token secret = Some decoded \<and>
          decoded ''sub'' = Some (JStr (userId p)) \<and> decoded ''email'' = Some (JStr (email p)))"
  by (auto simp: verifyAccessToken_def getJwtSecret_def andThen_def
        split: option.splits json.splits if_splits)

text \<open>
  C8. \<open>requireAuth\<close> hands a 401 \<open>UNAUTHORIZED\<close> error to \<open>next\<close> exactly when the
  \<open>Authorization\<close> header is missing, does not start with \<open>Bearer \<close>, carries nothing but
  white space after the prefix, or the trimmed token fails \<open>verifyAccessToken\<close>; otherwise
  it stores the \<open>userId\<close> and \<open>email\<close> of the verified token and calls \<open>next()\<close>.
\<close>

theorem requireAuth_rejects_iff:
  "(isl (requireAuth env jwt_verify authorization)
      = (authorization = None \<or>
         (\<exists>h. authorization = Some h \<and>
            (\<not> startsWith h ''Bearer '' \<or> trim (drop 7 h) = [] \<or>
             isl (verifyAccessToken env jwt_verify (trim (drop 7 h)))))))
   \<and> (\<forall>e. requireAuth env jwt_verify authorization = Inl e
          \<longrightarrow> statusCode e = 401 \<and> code e = ''UNAUTHORIZED'')
   \<and> (\<forall>h p. authorization = Some h \<and> startsWith h ''Bearer '' \<and> trim (drop 7 h) \<noteq> [] \<and>
          verifyAccessToken env jwt_verify (trim (drop 7 h)) = Inr p
          \<longrightarrow> requireAuth env jwt_verify authorization = Inr \<lparr>userId = userId p, email = email p\<rparr>)"
proof -
  have "length ''Bearer '' = 7" by simp
  then have d7: "drop (length ''Bearer '') x = drop 7 x" for x :: string by (simp only:)
  have unfold: "requireAuth env jwt_verify authorization =
     (case authorization of
        None \<Rightarrow> Inl (newAppError 401 ''UNAUTHORIZED'' ''Missing or invalid Authorization header'')
      | Some authHeader \<Rightarrow>
          if authHeader = [] \<or> \<not> startsWith authHeader ''Bearer ''
          then Inl (newAppError 401 ''UNAUTHORIZED'' ''Missing or invalid Authorization header'')
          else if trim (drop 7 authHeader) = []
          then Inl (newAppError 401 ''UNAUTHORIZED'' ''Missing access token'')
          else (case verifyAccessToken env jwt_verify (trim (drop 7 authHeader)) of
                  Inr payload \<Rightarrow> Inr \<lparr>userId = userId payload, email = email payload\<rparr>
                | Inl caught \<Rightarrow> Inl (newAppError 401 ''UNAUTHORIZED'' ''Invalid or expired token'')))"
    unfolding requireAuth_def d7 Let_def ..
  show ?thesis
  proof (cases authorization)
    case None
    then show ?thesis unfolding unfold by (simp add: newAppError_def)
  next
    case (Some h)
    have e: "h = [] \<Longrightarrow> \<not> startsWith h ''Bearer ''" by (simp add: startsWith_def)
    show ?thesis
    proof (cases "h = [] \<or> \<not> startsWith h ''Bearer ''")
      case True
      then have "\<not> startsWith h ''Bearer ''" using e by blast
      then show ?thesis using Some unfolding unfold by (simp add: newAppError_def)
    next
      case False
      then have sw: "h \<noteq> []" "startsWith h ''Bearer ''" by simp_all
      show ?thesis
      proof (cases "trim (drop 7 h) = []")
        case True
        then show ?thesis using Some sw unfolding unfold by (simp add: newAppError_def)
      next
        case False
        then show ?thesis using Some sw unfolding unfold
          by (cases "verifyAccessToken env jwt_verify (trim (drop 7 h))")
            (simp_all add: newAppError_def)
      qed
    qed
  qed
qed

theorem requireAuth_rejects_iff_witness:
  "requireAuth
      \<lparr>NODE_ENV = None, JWT_SECRET = Some ''test-jwt-secret'', SUPABASE_URL = None,
       SUPABASE_SERVICE_ROLE_KEY = None, SUPABASE_STORAGE_BUCKET = None\<rparr>
      (\<lambda>token secret. if token = ''good'' \<and> secret = ''test-jwt-secret''
                       then Some [''sub'' \<mapsto> JStr ''user-1'', ''email'' \<mapsto> JStr ''a@b.c'']
                       else None)
      (Some ''Bearer good'')
     = Inr \<lparr>userId = ''user-1'', email = ''a@b.c''\<rparr>
   \<and> isl (requireAuth
      \<lparr>NODE_ENV = None, JWT_SECRET = Some ''test-jwt-secret'', SUPABASE_URL = None,
       SUPABASE_SERVICE_ROLE_KEY = None, SUPABASE_STORAGE_BUCKET = None\<rparr>
      (\<lambda>token secret. if token = ''good'' \<and> secret = ''test-jwt-secret''
                       then Some [''sub'' \<mapsto> JStr ''user-1'', ''email'' \<mapsto> JStr ''a@b.c'']
                       else None)
      None)
   \<and> isl (requireAuth
      \<lparr>NODE_ENV = None, JWT_SECRET = Some ''test-jwt-secret'', SUPABASE_URL = None,
       SUPABASE_SERVICE_ROLE_KEY = None, SUPABASE_STORAGE_BUCKET = None\<rparr>
      (\<lambda>token secret. if token = ''good'' \<and> secret = ''test-jwt-secret''
                       then Some [''sub'' \<mapsto> JStr ''user-1'', ''email'' \<mapsto> JStr ''a@b.c'']
                       else None)
      (Some ''Basic good''))
   \<and> isl (requireAuth
      \<lparr>NODE_ENV = None, JWT_SECRET = Some ''test-jwt-secret'', SUPABASE_URL = None,
       SUPABASE_SERVICE_ROLE_KEY = None, SUPABASE_STORAGE_BUCKET = None\<rparr>
      (\<lambda>token secret. if token = ''good'' \<and> secret = ''test-jwt-secret''
                       then Some [''sub'' \<mapsto> JStr ''user-1'', ''email'' \<mapsto> JStr ''a@b.c'']
                       else None)
      (Some ''Bearer   ''))
   \<and> isl (requireAuth
      \<lparr>NODE_ENV = None, JWT_SECRET = Some ''test-jwt-secret'', SUPABASE_URL = None,
       SUPABASE_SERVICE_ROLE_KEY = None, SUPABASE_STORAGE_BUCKET = None\<rparr>
      (\<lambda>token secret. if token = ''good'' \<and> secret = ''test-jwt-secret''
                       then Some [''sub'' \<mapsto> JStr ''user-1'', ''email'' \<mapsto> JStr ''a@b.c'']
                       else None)
      (Some ''Bearer invalid-token''))"
proof -
  let ?env = "\<lparr>NODE_ENV = None, JWT_SECRET = Some ''test-jwt-secret'', SUPABASE_URL = None,
       SUPABASE_SERVICE_ROLE_KEY = None, SUPABASE_STORAGE_BUCKET = None\<rparr>"
  let ?jv = "\<lambda>token secret. if token = ''good'' \<and> secret = ''test-jwt-secret''
                       then Some [''sub'' \<mapsto> JStr ''user-1'', ''email'' \<mapsto> JStr ''a@b.c'']
                       else None"
  have t1: "trim (drop 7 ''Bearer good'') = ''good''"
    and t2: "trim (drop 7 ''Bearer   '') = []"
    and t3: "trim (drop 7 ''Bearer invalid-token'') = ''invalid-token''"
    by (simp_all add: trim_def isWhiteSpace_def)
  have s1: "startsWith ''Bearer good'' ''Bearer ''"
    and s2: "\<not> startsWith ''Basic good'' ''Bearer ''"
    and s3: "startsWith ''Bearer   '' ''Bearer ''"
    and s4: "startsWith ''Bearer invalid-token'' ''Bearer ''"
    by (simp_all add: startsWith_def)
  have v1: "verifyAccessToken ?env ?jv ''good'' = Inr \<lparr>userId = ''user-1'', email = ''a@b.c''\<rparr>"
    and v3: "isl (verifyAccessToken ?env ?jv ''invalid-token'')"
    by (simp_all add: verifyAccessToken_def getJwtSecret_def andThen_def)
  have r1: "requireAuth ?env ?jv (Some ''Bearer good'') = Inr \<lparr>userId = ''user-1'', email = ''a@b.c''\<rparr>"
    using requireAuth_rejects_iff [of ?env ?jv "Some ''Bearer good''", THEN conjunct2, THEN conjunct2,
            rule_format, of "''Bearer good''" "\<lparr>userId = ''user-1'', email = ''a@b.c''\<rparr>"]
      s1 t1 v1 by simp
  have r2: "isl (requireAuth ?env ?jv None)"
    unfolding requireAuth_rejects_iff [of ?env ?jv None, THEN conjunct1] by simp
  have r3: "isl (requireAuth ?env ?jv (Some ''Basic good''))"
    unfolding requireAuth_rejects_iff [of ?env ?jv "Some ''Basic good''", THEN conjunct1]
    using s2 by simp
  have r4: "isl (requireAuth ?env ?jv (Some ''Bearer   ''))"
    unfolding requireAuth_rejects_iff [of ?env ?jv "Some ''Bearer   ''", THEN conjunct1]
    using t2 by simp
  have r5: "isl (requireAuth ?env ?jv (Some ''Bearer invalid-token''))"
    unfolding requireAuth_rejects_iff [of ?env ?jv "Some ''Bearer invalid-token''", THEN conjunct1]
    using t3 v3 by simp
  show ?thesis using r1 r2 r3 r4 r5 by (intro conjI)
qed

section \<open>Experience rows: a current position and its end month\<close>

lemma andThen_InrE:
  assumes "andThen r f = Inr y"
  obtains x where "r = Inr x" and "f x = Inr y"
  using assms by (cases r) (simp_all add: andThen_def)

text \<open>A row made by \<open>createExperience\<close> never is current with an end month.\<close>

lemma createExperience_currentHasNoEnd:
  assumes "createExperience toNumber URL_parse sanitize body = Inr e"
  shows "currentHasNoEnd e"
  using assms unfolding createExperience_def Let_def
  by (elim andThen_InrE) (auto simp: currentHasNoEnd_def)

text \<open>
  A row written by \<open>updateExperience\<close> is current with an end month exactly when the
  request has no \<open>endMonth\<close> key, the row is current after the update, and the stored row
  had an end month: the column is then left as it was.
\<close>

lemma updateExperience_currentHasNoEnd_iff:
  assumes "updateExperience toNumber URL_parse sanitize (Some existing) body = Inr e"
  shows "currentHasNoEnd e
           = (\<not> (body ''endMonth'' = None \<and> isCurrent e \<and> endMonth existing \<noteq> None))"
proof -
  from assms obtain u where
    "(case Some existing of
       None \<Rightarrow> Inl (ThrownAppError (newAppError 404 ''NOT_FOUND'' ''Experience not found''))
     | Some existing \<Rightarrow>
     andThen (asThrown (validateOptionalStringWithMaxLength (body ''company'') ''company'' 120)) (\<lambda>company'.
     andThen (asThrown (validateOptionalStringWithMaxLength (body ''role'') ''role'' 120)) (\<lambda>role'.
     andThen (asThrown (nullOrValidated (body ''employmentType'')
                (validateOptionalStringWithMaxLength (body ''employmentType'') ''employmentType'' 80)))
       (\<lambda>employmentType'.
     andThen (asThrown (nullOrValidated (body ''location'')
                (validateOptionalStringWithMaxLength (body ''location'') ''location'' 120)))
       (\<lambda>location'.
     andThen (asThrown (validateOptionalMonthString (body ''startMonth'') ''startMonth'')) (\<lambda>startMonth'.
     andThen (asThrown (nullOrValidated (body ''endMonth'')
                (validateOptionalMonthString (body ''endMonth'') ''endMonth'')))
       (\<lambda>endMonth'.
     let isCurrent' = (case body ''isCurrent'' of None \<Rightarrow> None | Some v \<Rightarrow> Some (toBoolean v)) in
     andThen (asThrown (validateOptionalHtmlField (body ''summaryHtml'') ''summaryHtml'' 50000)) (\<lambda>summaryHtml'.
     andThen (asThrown (validateOptionalHighlights (body ''highlights'') ''highlights'')) (\<lambda>highlights'.
     andThen (asThrown (validateOptionalTechTags (body ''techTags'') ''techTags'')) (\<lambda>techTags'.
     andThen (asThrown (validateOptionalExternalLinks URL_parse (body ''links'') ''links'')) (\<lambda>links'.
     andThen (validateOptionalSortOrder toNumber (body ''sortOrder'') ''sortOrder'') (\<lambda>sortOrder'.
     let nextStartMonth = (case startMonth' of Some m \<Rightarrow> m | None \<Rightarrow> startMonth existing);
         nextIsCurrent = (case isCurrent' of Some b \<Rightarrow> b | None \<Rightarrow> isCurrent existing);
         nextEndMonth = (if nextIsCurrent then None
                         else case endMonth' of Given m \<Rightarrow> Some m | _ \<Rightarrow> endMonth existing) in
     andThen (asThrown (validateExperienceChronology nextStartMonth (ofColumn nextEndMonth) nextIsCurrent)) (\<lambda>_.
       Inr \<lparr>company = (case company' of Some c \<Rightarrow> c | None \<Rightarrow> company existing),
            role = (case role' of Some r \<Rightarrow> r | None \<Rightarrow> role existing),
            employmentType = (case employmentType' of Undefined \<Rightarrow> employmentType existing
                              | v \<Rightarrow> toColumn v),
            location = (case location' of Undefined \<Rightarrow> location existing | v \<Rightarrow> toColumn v),
            startMonth = (case startMonth' of Some m \<Rightarrow> m | None \<Rightarrow> startMonth existing),
            endMonth = (if body ''endMonth'' \<noteq> None then nextEndMonth else endMonth existing),
            isCurrent = (case isCurrent' of Some b \<Rightarrow> b | None \<Rightarrow> isCurrent existing),
            summaryHtml = (case summaryHtml' of Some h \<Rightarrow> sanitize h | None \<Rightarrow> summaryHtml existing),
            highlights = (case highlights' of Some h \<Rightarrow> h | None \<Rightarrow> highlights existing),
            techTags = (case techTags' of Some t \<Rightarrow> t | None \<Rightarrow> techTags existing),
            links = (case links' of Some l \<Rightarrow> l | None \<Rightarrow> links existing),
            sortOrder = (case sortOrder' of Some n \<Rightarrow> n | None \<Rightarrow> sortOrder existing)\<rparr>))))))))))))) = Inr e"
    unfolding updateExperience_def by (rule andThen_InrE)
  then show ?thesis
    unfolding option.case Let_def
    apply (elim andThen_InrE)
    apply (simp only: sum.inject)
    apply hypsubst
    apply (simp add: currentHasNoEnd_def split: option.split nullish.split)
    done
qed

text \<open>
  C1, at a stored row that is not current and ends in \<open>2023-12\<close>, and the request body
  \<open>{isCurrent: true}\<close>: \<open>updateExperience\<close> succeeds and the row it leaves is current and
  still ends in \<open>2023-12\<close>.
\<close>

theorem updateExperience_current_keeps_endMonth:
  "updateExperience toNumber URL_parse sanitize
      (Some \<lparr>company = ''Acme'', role = ''Engineer'', employmentType = None, location = None,
             startMonth = ''2023-01'', endMonth = Some ''2023-12'', isCurrent = False,
             summaryHtml = ''<p>x</p>'', highlights = [], techTags = [], links = [],
             sortOrder = 0\<rparr>)
      [''isCurrent'' \<mapsto> JBool True]
     = Inr \<lparr>company = ''Acme'', role = ''Engineer'', employmentType = None, location = None,
            startMonth = ''2023-01'', endMonth = Some ''2023-12'', isCurrent = True,
            summaryHtml = ''<p>x</p>'', highlights = [], techTags = [], links = [],
            sortOrder = 0\<rparr>
   \<and> currentHasNoEnd
        \<lparr>company = ''Acme'', role = ''Engineer'', employmentType = None, location = None,
         startMonth = ''2023-01'', endMonth = Some ''2023-12'', isCurrent = False,
         summaryHtml = ''<p>x</p>'', highlights = [], techTags = [], links = [],
         sortOrder = 0\<rparr>
   \<and> \<not> currentHasNoEnd
        \<lparr>company = ''Acme'', role = ''Engineer'', employmentType = None, location = None,
         startMonth = ''2023-01'', endMonth = Some ''2023-12'', isCurrent = True,
         summaryHtml = ''<p>x</p>'', highlights = [], techTags = [], links = [],
         sortOrder = 0\<rparr>"
  by (simp add: updateExperience_def requireAtLeastOneField_def andThen_def
        validateOptionalStringWithMaxLength_def validateOptionalString_def nullOrValidated_def
        validateOptionalMonthString_def validateOptionalHtmlField_def
        validateOptionalHighlights_def validateOptionalTechTags_def
        validateOptionalExternalLinks_def validateOptionalSortOrder_def toBoolean_def
        validateExperienceChronology_def truthyString_def ofColumn_def toColumn_def
        currentHasNoEnd_def asThrown_def)

theorem updateExperience_current_keeps_endMonth_witness:
  "updateExperience decimalCoercion schemeParser (\<lambda>html. html)
      (Some \<lparr>company = ''Acme'', role = ''Engineer'', employmentType = None, location = None,
             startMonth = ''2023-01'', endMonth = Some ''2023-12'', isCurrent = False,
             summaryHtml = ''<p>x</p>'', highlights = [], techTags = [], links = [],
             sortOrder = 0\<rparr>)
      [''isCurrent'' \<mapsto> JBool True]
     = Inr \<lparr>company = ''Acme'', role = ''Engineer'', employmentType = None, location = None,
            startMonth = ''2023-01'', endMonth = Some ''2023-12'', isCurrent = True,
            summaryHtml = ''<p>x</p>'', highlights = [], techTags = [], links = [],
            sortOrder = 0\<rparr>
   \<and> throwsBadRequest
        (createExperience decimalCoercion schemeParser (\<lambda>html. html)
           [''company'' \<mapsto> JStr ''Acme'', ''role'' \<mapsto> JStr ''Engineer'',
            ''startMonth'' \<mapsto> JStr ''2023-01'', ''endMonth'' \<mapsto> JStr ''2024-01'',
            ''isCurrent'' \<mapsto> JBool True, ''summaryHtml'' \<mapsto> JStr ''<p>x</p>''])"
proof -
  have c: "throwsBadRequest
        (createExperience decimalCoercion schemeParser (\<lambda>html. html)
           [''company'' \<mapsto> JStr ''Acme'', ''role'' \<mapsto> JStr ''Engineer'',
            ''startMonth'' \<mapsto> JStr ''2023-01'', ''endMonth'' \<mapsto> JStr ''2024-01'',
            ''isCurrent'' \<mapsto> JBool True, ''summaryHtml'' \<mapsto> JStr ''<p>x</p>''])"
    by (simp add: createExperience_def andThen_def validateRequiredStringWithMaxLength_def
          validateRequiredString_def validateOptionalStringWithMaxLength_def
          validateOptionalString_def nullOrValidated_def validateRequiredMonthString_def
          validateOptionalMonthString_def validateRequiredHtmlField_def validateHighlights_def
          validateTechTags_def validateTags_def validateExternalLinks_def orEmptyArray_def
          toBoolean_def validateExperienceChronology_def truthyString_def throwsBadRequest_def
          asThrown_def newAppError_def trim_def isWhiteSpace_def isDigit_def)
  show ?thesis
    using updateExperience_current_keeps_endMonth [of decimalCoercion schemeParser "\<lambda>html. html",
            THEN conjunct1] c
    by (intro conjI)
qed

section \<open>Uploads of more than ten files\<close>

lemma multerArray_Parsed_length:
  "multerArray parts accepted = Parsed fs \<Longrightarrow> length accepted \<le> MAX_FILES \<Longrightarrow>
     length fs = length accepted + length parts \<and> length fs \<le> MAX_FILES"
proof (induction parts arbitrary: accepted)
  case Nil
  then show ?case by simp
next
  case (Cons part rest)
  from Cons.prems have lt: "length accepted < MAX_FILES"
    by (auto split: if_splits)
  from Cons.prems lt have
    "multerArray rest
       (accepted @ [\<lparr>originalname = partName part, mimetype = partType part,
                     size_bytes = length (partContent part), buffer = partContent part\<rparr>])
       = Parsed fs"
    by (auto split: if_splits option.splits)
  from Cons.IH [OF this] lt show ?case by simp
qed

lemma multerArray_CallbackError:
  "multerArray parts accepted = CallbackError e \<Longrightarrow>
     \<exists>a. e = ThrownAppError a \<and> statusCode a = 400 \<and> code a = ''BAD_REQUEST''"
proof (induction parts arbitrary: accepted)
  case Nil
  then show ?case by simp
next
  case (Cons part rest)
  show ?case
  proof (cases "fileFilter (partType part)")
    case None
    with Cons.prems have
      "multerArray rest
         (accepted @ [\<lparr>originalname = partName part, mimetype = partType part,
                       size_bytes = length (partContent part), buffer = partContent part\<rparr>])
         = CallbackError e"
      by (auto split: if_splits)
    from Cons.IH [OF this] show ?thesis .
  next
    case (Some a)
    then have a: "a = newAppError 400 ''BAD_REQUEST'' ''Only JPG, PNG, WEBP, and GIF are allowed''"
      by (simp add: fileFilter_def split: if_splits)
    from Cons.prems Some have "e = ThrownAppError a" by (auto split: if_splits)
    then show ?thesis using a by (simp add: newAppError_def)
  qed
qed

lemma uploadMiddleware_over_limit:
  assumes "length parts > 10"
  shows "\<exists>a. uploadMiddleware (multerArray parts []) = Inl (ThrownAppError a)
            \<and> statusCode a = 400 \<and> code a = ''BAD_REQUEST''"
proof (cases "multerArray parts []")
  case (MulterError c m)
  then show ?thesis by (simp add: uploadMiddleware_def newAppError_def)
next
  case (CallbackError e)
  then show ?thesis using multerArray_CallbackError [of parts "[]" e]
    by (auto simp: uploadMiddleware_def)
next
  case (Parsed fs)
  from multerArray_Parsed_length [OF this] assms show ?thesis by (simp add: MAX_FILES_def)
qed

lemma parseUploadFolder_error:
  "parseUploadFolder v = Inl e \<Longrightarrow> statusCode e = 400 \<and> code e = ''BAD_REQUEST''"
  by (auto simp: parseUploadFolder_def validateRequiredString_def andThen_def newAppError_def
        split: option.splits json.splits if_splits)

lemma uploadImages_over_limit:
  assumes "length files > 10"
  shows "\<exists>a. uploadImages env createClient objectPrototype storageUpload getPublicUrl randomUUID
                body (Some files)
              = (Inl (ThrownAppError a), [])
            \<and> statusCode a = 400 \<and> code a = ''BAD_REQUEST''"
proof (cases "parseUploadFolder (body ''folder'')")
  case (Inl e)
  then show ?thesis using parseUploadFolder_error [OF Inl] by (simp add: uploadImages_def)
next
  case (Inr folder)
  then show ?thesis using assms
    by (simp add: uploadImages_def MAX_FILES_PER_REQUEST_def newAppError_def)
qed

text \<open>
  C7. For a request with more than ten file parts, the upload middleware passes a 400
  \<open>BAD_REQUEST\<close> error on, \<open>uploadImages\<close> is not run and no upload call reaches the
  storage; the terminal handler answers with status 400 and code \<open>BAD_REQUEST\<close>. The
  controller itself, given more than ten files, throws 400 \<open>BAD_REQUEST\<close> before its loop,
  with no upload call made.
\<close>

theorem upload_over_ten_files_rejected:
  "(length parts > 10 \<longrightarrow>
      (\<exists>a. postUploads env createClient objectPrototype storageUpload getPublicUrl randomUUID
                body parts
              = (Inl (ThrownAppError a), [])
          \<and> statusCode a = 400 \<and> code a = ''BAD_REQUEST''
          \<and> status (errorHandler env (ThrownAppError a)) = 400
          \<and> errorCode (errorHandler env (ThrownAppError a)) = ''BAD_REQUEST''))
   \<and> (length files > 10 \<longrightarrow>
      (\<exists>a. uploadImages env createClient objectPrototype storageUpload getPublicUrl randomUUID
                body (Some files)
              = (Inl (ThrownAppError a), [])
          \<and> statusCode a = 400 \<and> code a = ''BAD_REQUEST''
          \<and> status (errorHandler env (ThrownAppError a)) = 400
          \<and> errorCode (errorHandler env (ThrownAppError a)) = ''BAD_REQUEST''))"
proof (intro conjI impI)
  assume "length parts > 10"
  from uploadMiddleware_over_limit [OF this] obtain a where
    a: "uploadMiddleware (multerArray parts []) = Inl (ThrownAppError a)"
      "statusCode a = 400" "code a = ''BAD_REQUEST''" by blast
  have "postUploads env createClient objectPrototype storageUpload getPublicUrl randomUUID
                body parts = (Inl (ThrownAppError a), [])"
    using a(1) by (simp add: postUploads_def)
  then show "\<exists>a. postUploads env createClient objectPrototype storageUpload getPublicUrl randomUUID
                body parts
              = (Inl (ThrownAppError a), [])
          \<and> statusCode a = 400 \<and> code a = ''BAD_REQUEST''
          \<and> status (errorHandler env (ThrownAppError a)) = 400
          \<and> errorCode (errorHandler env (ThrownAppError a)) = ''BAD_REQUEST''"
    using a(2,3) by (auto simp: errorHandler_def typeProperty_def)
next
  assume "length files > 10"
  from uploadImages_over_limit [OF this] obtain a where
    a: "uploadImages env createClient objectPrototype storageUpload getPublicUrl randomUUID
                body (Some files)
          = (Inl (ThrownAppError a), [])"
      "statusCode a = 400" "code a = ''BAD_REQUEST''" by blast
  then show "\<exists>a. uploadImages env createClient objectPrototype storageUpload getPublicUrl randomUUID
                body (Some files)
              = (Inl (ThrownAppError a), [])
          \<and> statusCode a = 400 \<and> code a = ''BAD_REQUEST''
          \<and> status (errorHandler env (ThrownAppError a)) = 400
          \<and> errorCode (errorHandler env (ThrownAppError a)) = ''BAD_REQUEST''"
    by (auto simp: errorHandler_def typeProperty_def)
qed


theorem upload_over_ten_files_rejected_witness:
  "snd (postUploads
          \<lparr>NODE_ENV = None, JWT_SECRET = None, SUPABASE_URL = Some ''https://abc.supabase.co'',
           SUPABASE_SERVICE_ROLE_KEY = Some ''service-key'', SUPABASE_STORAGE_BUCKET = None\<rparr>
          httpClient inheritedMembers
          (\<lambda>call bytes. None) (\<lambda>b path. ''https://cdn.test/'' @ path) (\<lambda>n. ''uuid'')
          [''folder'' \<mapsto> JStr ''projects'']
          (replicate 11 \<lparr>partField = ''files'', partName = ''test.jpg'',
                          partType = ''image/jpeg'', partContent = ''abc''\<rparr>)) = []
   \<and> fst (postUploads
          \<lparr>NODE_ENV = None, JWT_SECRET = None, SUPABASE_URL = Some ''https://abc.supabase.co'',
           SUPABASE_SERVICE_ROLE_KEY = Some ''service-key'', SUPABASE_STORAGE_BUCKET = None\<rparr>
          httpClient inheritedMembers
          (\<lambda>call bytes. None) (\<lambda>b path. ''https://cdn.test/'' @ path) (\<lambda>n. ''uuid'')
          [''folder'' \<mapsto> JStr ''projects'']
          (replicate 11 \<lparr>partField = ''files'', partName = ''test.jpg'',
                          partType = ''image/jpeg'', partContent = ''abc''\<rparr>))
       = Inl (ThrownAppError
                (newAppError 400 ''BAD_REQUEST'' ''You can upload up to 10 images at once''))
   \<and> snd (uploadImages
          \<lparr>NODE_ENV = None, JWT_SECRET = None, SUPABASE_URL = Some ''https://abc.supabase.co'',
           SUPABASE_SERVICE_ROLE_KEY = Some ''service-key'', SUPABASE_STORAGE_BUCKET = None\<rparr>
          httpClient inheritedMembers
          (\<lambda>call bytes. None) (\<lambda>b path. ''https://cdn.test/'' @ path) (\<lambda>n. ''uuid'')
          [''folder'' \<mapsto> JStr ''projects'']
          (Some (replicate 11 \<lparr>originalname = ''test.jpg'', mimetype = ''image/jpeg'',
                                size_bytes = 3, buffer = ''abc''\<rparr>))) = []
   \<and> fst (uploadImages
          \<lparr>NODE_ENV = None, JWT_SECRET = None, SUPABASE_URL = Some ''https://abc.supabase.co'',
           SUPABASE_SERVICE_ROLE_KEY = Some ''service-key'', SUPABASE_STORAGE_BUCKET = None\<rparr>
          httpClient inheritedMembers
          (\<lambda>call bytes. None) (\<lambda>b path. ''https://cdn.test/'' @ path) (\<lambda>n. ''uuid'')
          [''folder'' \<mapsto> JStr ''projects'']
          (Some (replicate 11 \<lparr>originalname = ''test.jpg'', mimetype = ''image/jpeg'',
                                size_bytes = 3, buffer = ''abc''\<rparr>)))
       = Inl (ThrownAppError (newAppError 400 ''BAD_REQUEST'' ''Upload between 1 and 10 images''))
   \<and> postUploads
          \<lparr>NODE_ENV = None, JWT_SECRET = None, SUPABASE_URL = Some ''https://abc.supabase.co'',
           SUPABASE_SERVICE_ROLE_KEY = Some ''service-key'', SUPABASE_STORAGE_BUCKET = None\<rparr>
          httpClient inheritedMembers
          (\<lambda>call bytes. None) (\<lambda>b path. ''https://cdn.test/'' @ path) (\<lambda>n. ''uuid'')
          [''folder'' \<mapsto> JStr ''projects'']
          [\<lparr>partField = ''files'', partName = ''My Photo.JPG'',
            partType = ''image/jpeg'', partContent = ''abc''\<rparr>]
       = (Inr [''https://cdn.test/projects/uuid-my-photo.jpg''],
          [\<lparr>callBucket = ''images'', callPath = ''projects/uuid-my-photo.jpg'',
            callContentType = ''image/jpeg''\<rparr>])"
proof -
  let ?env = "\<lparr>NODE_ENV = None, JWT_SECRET = None, SUPABASE_URL = Some ''https://abc.supabase.co'',
           SUPABASE_SERVICE_ROLE_KEY = Some ''service-key'', SUPABASE_STORAGE_BUCKET = None\<rparr>"
  let ?up = "\<lambda>(call :: UploadCall) (bytes :: string). (None :: string option)"
  let ?gp = "\<lambda>(b :: string) path. ''https://cdn.test/'' @ path"
  let ?id = "\<lambda>n :: nat. ''uuid''"
  let ?body = "[''folder'' \<mapsto> JStr ''projects'']"
  let ?parts = "replicate 11 \<lparr>partField = ''files'', partName = ''test.jpg'',
                          partType = ''image/jpeg'', partContent = ''abc''\<rparr>"
  let ?files = "replicate 11 \<lparr>originalname = ''test.jpg'', mimetype = ''image/jpeg'',
                                size_bytes = 3, buffer = ''abc''\<rparr>"
  have lp: "length ?parts > 10" and lf: "length ?files > 10" by simp_all
  note T = upload_over_ten_files_rejected
             [where env = ?env and createClient = httpClient and objectPrototype = inheritedMembers
                and storageUpload = ?up and getPublicUrl = ?gp and randomUUID = ?id
                and body = ?body and parts = ?parts and files = ?files]
  from T [THEN conjunct1, rule_format, OF lp]
  obtain a where e1: "postUploads ?env httpClient inheritedMembers ?up ?gp ?id ?body ?parts
                        = (Inl (ThrownAppError a), [])"
    by (elim exE conjE)
  have r1: "snd (postUploads ?env httpClient inheritedMembers ?up ?gp ?id ?body ?parts) = []"
    by (simp only: e1 snd_conv)
  from T [THEN conjunct2, rule_format, OF lf]
  obtain a' where e3: "uploadImages ?env httpClient inheritedMembers ?up ?gp ?id ?body (Some ?files)
                         = (Inl (ThrownAppError a'), [])"
    by (elim exE conjE)
  have r3: "snd (uploadImages ?env httpClient inheritedMembers ?up ?gp ?id ?body (Some ?files)) = []"
    by (simp only: e3 snd_conv)
  have repP: "?parts = [\<lparr>partField = ''files'', partName = ''test.jpg'',
                          partType = ''image/jpeg'', partContent = ''abc''\<rparr>,
       \<lparr>partField = ''files'', partName = ''test.jpg'', partType = ''image/jpeg'', partContent = ''abc''\<rparr>,
       \<lparr>partField = ''files'', partName = ''test.jpg'', partType = ''image/jpeg'', partContent = ''abc''\<rparr>,
       \<lparr>partField = ''files'', partName = ''test.jpg'', partType = ''image/jpeg'', partContent = ''abc''\<rparr>,
       \<lparr>partField = ''files'', partName = ''test.jpg'', partType = ''image/jpeg'', partContent = ''abc''\<rparr>,
       \<lparr>partField = ''files'', partName = ''test.jpg'', partType = ''image/jpeg'', partContent = ''abc''\<rparr>,
       \<lparr>partField = ''files'', partName = ''test.jpg'', partType = ''image/jpeg'', partContent = ''abc''\<rparr>,
       \<lparr>partField = ''files'', partName = ''test.jpg'', partType = ''image/jpeg'', partContent = ''abc''\<rparr>,
       \<lparr>partField = ''files'', partName = ''test.jpg'', partType = ''image/jpeg'', partContent = ''abc''\<rparr>,
       \<lparr>partField = ''files'', partName = ''test.jpg'', partType = ''image/jpeg'', partContent = ''abc''\<rparr>,
       \<lparr>partField = ''files'', partName = ''test.jpg'', partType = ''image/jpeg'', partContent = ''abc''\<rparr>]"
    by (simp add: eval_nat_numeral)
  have r2: "fst (postUploads ?env httpClient inheritedMembers ?up ?gp ?id ?body ?parts)
       = Inl (ThrownAppError
                (newAppError 400 ''BAD_REQUEST'' ''You can upload up to 10 images at once''))"
    unfolding repP
    by (simp add: postUploads_def uploadMiddleware_def MAX_FILES_def MAX_SIZE_BYTES_def
          fileFilter_def ALLOWED_MIME_TYPES_def)
  have folder: "parseUploadFolder (?body ''folder'') = Inr ''projects''"
    by (simp add: parseUploadFolder_def validateRequiredString_def andThen_def trim_def
          isWhiteSpace_def ALLOWED_FOLDERS_def)
  have r4: "fst (uploadImages ?env httpClient inheritedMembers ?up ?gp ?id ?body (Some ?files))
       = Inl (ThrownAppError (newAppError 400 ''BAD_REQUEST'' ''Upload between 1 and 10 images''))"
    unfolding uploadImages_def folder by (simp add: MAX_FILES_PER_REQUEST_def)
  have name: "sanitizeFileName ''My Photo.JPG'' = ''my-photo.jpg''"
    and ext: "fileExtension inheritedMembers ''my-photo.jpg'' ''image/jpeg'' = ''jpg''"
    and stem: "withoutExtension ''my-photo.jpg'' = ''my-photo''"
    and client: "httpClient ''https://abc.supabase.co'' ''service-key'' = None"
    by code_simp+
  have config: "getStorageConfig ?env
      = Inr \<lparr>storageUrl = ''https://abc.supabase.co'', serviceRoleKey = ''service-key'',
             bucket = ''images''\<rparr>"
    by (simp add: getStorageConfig_def startsWith_def)
  have mw: "uploadMiddleware
              (multerArray [\<lparr>partField = ''files'', partName = ''My Photo.JPG'',
                             partType = ''image/jpeg'', partContent = ''abc''\<rparr>] [])
          = Inr [\<lparr>originalname = ''My Photo.JPG'', mimetype = ''image/jpeg'', size_bytes = 3,
                  buffer = ''abc''\<rparr>]"
    by (simp add: uploadMiddleware_def MAX_FILES_def MAX_SIZE_BYTES_def fileFilter_def
          ALLOWED_MIME_TYPES_def)
  have r5: "postUploads ?env httpClient inheritedMembers ?up ?gp ?id ?body
          [\<lparr>partField = ''files'', partName = ''My Photo.JPG'',
            partType = ''image/jpeg'', partContent = ''abc''\<rparr>]
       = (Inr [''https://cdn.test/projects/uuid-my-photo.jpg''],
          [\<lparr>callBucket = ''images'', callPath = ''projects/uuid-my-photo.jpg'',
            callContentType = ''image/jpeg''\<rparr>])"
    unfolding postUploads_def mw uploadImages_def folder
    by (simp add: config client MAX_FILES_PER_REQUEST_def MAX_FILE_SIZE_BYTES_def name ext stem
          Let_def)
  show ?thesis using r1 r2 r3 r4 r5 by (intro conjI)
qed







end
